theory Spec2Isabelle
  imports Complex_Main "HOL-Library.AList" "HOL-Library.Multiset"
begin

section \<open>JavaScript values\<close>

text \<open>
  The two scripts \<^verbatim>\<open>normalize-census-sources.mjs\<close> and
  \<^verbatim>\<open>ingest-state-tax-data.mjs\<close> work on the values a CSV or JSON reader
  produces. A number is an IEEE double: a finite value, one of the two infinities or NaN.
  Finite doubles are represented by the rational they denote and arithmetic on them is
  exact: rounding to 53 bits and overflow of sums are outside this development. Strings are
  lists of ASCII characters.
\<close>

datatype jsnum = Fin rat | PosInf | NegInf | NaN

datatype jsval =
    JUndefined
  | JNull
  | JBool bool
  | JNum jsnum
  | JStr string
  | JArr "jsval list"
  | JObj "(string \<times> jsval) list"

text \<open>\<^verbatim>\<open>Number.isFinite\<close> on a number.\<close>

fun isFinite :: "jsnum \<Rightarrow> bool" where
  "isFinite (Fin q) = True"
| "isFinite PosInf = False"
| "isFinite NegInf = False"
| "isFinite NaN = False"

text \<open>The rational a finite number denotes (0 for the three others, which the callers
  below rule out with \<open>isFinite\<close> first).\<close>

fun finVal :: "jsnum \<Rightarrow> rat" where
  "finVal (Fin q) = q"
| "finVal PosInf = 0"
| "finVal NegInf = 0"
| "finVal NaN = 0"

text \<open>\<^verbatim>\<open>a !== b\<close> on two numbers: NaN differs from everything, itself included.\<close>

definition strictNeq :: "jsnum \<Rightarrow> jsnum \<Rightarrow> bool" where
  "strictNeq a b = (a = NaN \<or> b = NaN \<or> a \<noteq> b)"

text \<open>\<^verbatim>\<open>a ?? b\<close>: the right operand replaces \<^verbatim>\<open>undefined\<close> and \<^verbatim>\<open>null\<close> only.\<close>

fun nullish :: "jsval \<Rightarrow> jsval \<Rightarrow> jsval" where
  "nullish JUndefined b = b"
| "nullish JNull b = b"
| "nullish a b = a"

text \<open>\<^verbatim>\<open>!value\<close> is true on the falsy values.\<close>

fun falsy :: "jsval \<Rightarrow> bool" where
  "falsy JUndefined = True"
| "falsy JNull = True"
| "falsy (JBool b) = (\<not> b)"
| "falsy (JNum n) = (n = NaN \<or> n = Fin 0)"
| "falsy (JStr s) = (s = [])"
| "falsy (JArr xs) = False"
| "falsy (JObj kvs) = False"

subsection \<open>Strings\<close>

definition isWhiteSpace :: "char \<Rightarrow> bool" where
  "isWhiteSpace c = (c \<in> set [CHR 0x09, CHR 0x0A, CHR 0x0B, CHR 0x0C, CHR 0x0D, CHR 0x20])"

definition isLineTerminator :: "char \<Rightarrow> bool" where
  "isLineTerminator c = (c = CHR 0x0A \<or> c = CHR 0x0D)"

text \<open>\<^verbatim>\<open>String.prototype.trim\<close>.\<close>

definition trim :: "string \<Rightarrow> string" where
  "trim s = rev (dropWhile isWhiteSpace (rev (dropWhile isWhiteSpace s)))"

definition isDigit :: "char \<Rightarrow> bool" where
  "isDigit c = (48 \<le> (of_char c :: nat) \<and> (of_char c :: nat) \<le> 57)"

definition digitVal :: "char \<Rightarrow> nat" where
  "digitVal c = of_char c - 48"

definition digitsVal :: "string \<Rightarrow> nat" where
  "digitsVal s = foldl (\<lambda>a c. 10 * a + digitVal c) 0 s"

text \<open>Decimal digits of a natural number, as \<^verbatim>\<open>String(n)\<close> prints an index.\<close>

definition digitChar :: "nat \<Rightarrow> char" where
  "digitChar d = ''0123456789'' ! d"

fun natDigits :: "nat \<Rightarrow> string" where
  "natDigits n = (if n < 10 then [digitChar n] else natDigits (n div 10) @ [digitChar (n mod 10)])"

fun joinWith :: "string \<Rightarrow> string list \<Rightarrow> string" where
  "joinWith sep [] = []"
| "joinWith sep [x] = x"
| "joinWith sep (x # y # ys) = x @ sep @ joinWith sep (y # ys)"

text \<open>
  \<^verbatim>\<open>Number.prototype.toString\<close>: the decimal digits of an integer below \<open>10^21\<close>,
  and the three names. The digits of any other finite value are those of the shortest
  decimal that reads back as the same double, which depends on the binary representation;
  they are left unspecified here, and no result below depends on them.
\<close>

definition numToString :: "jsnum \<Rightarrow> string" where
  "numToString n = (case n of
       NaN \<Rightarrow> ''NaN''
     | PosInf \<Rightarrow> ''Infinity''
     | NegInf \<Rightarrow> ''-Infinity''
     | Fin q \<Rightarrow>
         (if q = of_int \<lfloor>q\<rfloor> \<and> \<bar>q\<bar> < 10 ^ 21
          then (if q < 0 then CHR ''-'' # natDigits (nat (- \<lfloor>q\<rfloor>)) else natDigits (nat \<lfloor>q\<rfloor>))
          else undefined))"

text \<open>\<^verbatim>\<open>String(value)\<close>. An array prints its elements separated by commas, the
  elements \<^verbatim>\<open>null\<close> and \<^verbatim>\<open>undefined\<close> as the empty string; a plain
  object prints as \<^verbatim>\<open>[object Object]\<close>.\<close>

fun toStringJs :: "jsval \<Rightarrow> string" where
  "toStringJs JUndefined = ''undefined''"
| "toStringJs JNull = ''null''"
| "toStringJs (JBool b) = (if b then ''true'' else ''false'')"
| "toStringJs (JNum n) = numToString n"
| "toStringJs (JStr s) = s"
| "toStringJs (JArr xs) =
     joinWith '','' (map (\<lambda>x. if x = JUndefined \<or> x = JNull then [] else toStringJs x) xs)"
| "toStringJs (JObj kvs) = ''[object Object]''"

subsection \<open>Reading a number from a string\<close>

text \<open>
  \<^verbatim>\<open>Number(string)\<close> follows the grammar of ECMAScript's StringNumericLiteral:
  surrounding white space is dropped; the empty string is 0; a literal is
  \<^verbatim>\<open>0x\<close>, \<^verbatim>\<open>0o\<close> or \<^verbatim>\<open>0b\<close> with digits of that radix, or an optionally
  signed decimal literal (\<^verbatim>\<open>Infinity\<close>, digits with an optional fraction and an
  optional exponent); anything else is NaN.
\<close>

definition digitOf :: "char \<Rightarrow> nat option" where
  "digitOf c = (let k = (of_char c :: nat) in
     if 48 \<le> k \<and> k \<le> 57 then Some (k - 48)
     else if 97 \<le> k \<and> k \<le> 102 then Some (k - 87)
     else if 65 \<le> k \<and> k \<le> 70 then Some (k - 55)
     else None)"

fun radixDigits :: "nat \<Rightarrow> nat \<Rightarrow> string \<Rightarrow> nat option" where
  "radixDigits r acc [] = Some acc"
| "radixDigits r acc (c # cs) =
     (case digitOf c of
        None \<Rightarrow> None
      | Some d \<Rightarrow> if d < r then radixDigits r (r * acc + d) cs else None)"

text \<open>A literal whose magnitude is at least \<open>2^1024 - 2^970\<close> rounds to an infinity;
  below that bound the value is kept exact.\<close>

definition toDouble :: "rat \<Rightarrow> jsnum" where
  "toDouble q = (if 2 ^ 1024 - 2 ^ 970 \<le> \<bar>q\<bar> then (if 0 < q then PosInf else NegInf) else Fin q)"

definition nonDecimalLiteral :: "nat \<Rightarrow> string \<Rightarrow> jsnum" where
  "nonDecimalLiteral r ds =
     (if ds = [] then NaN
      else case radixDigits r 0 ds of None \<Rightarrow> NaN | Some n \<Rightarrow> toDouble (of_nat n))"

definition allDigits :: "string \<Rightarrow> nat option" where
  "allDigits s = (if s \<noteq> [] \<and> list_all isDigit s then Some (digitsVal s) else None)"

definition exponentPart :: "string \<Rightarrow> int option" where
  "exponentPart s = (case s of
       [] \<Rightarrow> Some 0
     | c # r \<Rightarrow>
         if c = CHR ''e'' \<or> c = CHR ''E'' then
           (case r of
              [] \<Rightarrow> None
            | d # ds \<Rightarrow>
                if d = CHR ''+'' then map_option int (allDigits ds)
                else if d = CHR ''-'' then map_option (\<lambda>n. - int n) (allDigits ds)
                else map_option int (allDigits r))
         else None)"

definition scale10 :: "rat \<Rightarrow> int \<Rightarrow> rat" where
  "scale10 m e = (if 0 \<le> e then m * 10 ^ nat e else m / 10 ^ nat (- e))"

definition strUnsignedDecimal :: "string \<Rightarrow> rat option" where
  "strUnsignedDecimal s =
     (let ip = takeWhile isDigit s;
          r1 = dropWhile isDigit s;
          hasDot = (r1 \<noteq> [] \<and> hd r1 = CHR ''.'');
          fp = (if hasDot then takeWhile isDigit (tl r1) else []);
          r2 = (if hasDot then dropWhile isDigit (tl r1) else r1)
      in if ip = [] \<and> fp = [] then None
         else case exponentPart r2 of
                None \<Rightarrow> None
              | Some e \<Rightarrow>
                  Some (scale10 (of_nat (digitsVal ip) + of_nat (digitsVal fp) / 10 ^ length fp) e))"

definition strUnsigned :: "string \<Rightarrow> jsnum" where
  "strUnsigned s =
     (if s = ''Infinity'' then PosInf
      else case strUnsignedDecimal s of None \<Rightarrow> NaN | Some q \<Rightarrow> toDouble q)"

fun negate :: "jsnum \<Rightarrow> jsnum" where
  "negate (Fin q) = Fin (- q)"
| "negate PosInf = NegInf"
| "negate NegInf = PosInf"
| "negate NaN = NaN"

definition strDecimalLiteral :: "string \<Rightarrow> jsnum" where
  "strDecimalLiteral s = (case s of
       [] \<Rightarrow> NaN
     | c # r \<Rightarrow>
         if c = CHR ''+'' then strUnsigned r
         else if c = CHR ''-'' then negate (strUnsigned r)
         else strUnsigned s)"

definition stringToNumber :: "string \<Rightarrow> jsnum" where
  "stringToNumber s =
     (let t = trim s in
      if t = [] then Fin 0
      else if take 2 t = ''0x'' \<or> take 2 t = ''0X'' then nonDecimalLiteral 16 (drop 2 t)
      else if take 2 t = ''0o'' \<or> take 2 t = ''0O'' then nonDecimalLiteral 8 (drop 2 t)
      else if take 2 t = ''0b'' \<or> take 2 t = ''0B'' then nonDecimalLiteral 2 (drop 2 t)
      else strDecimalLiteral t)"

text \<open>\<^verbatim>\<open>Number(value)\<close>; an array or object is converted through its string.\<close>

fun toNumberJs :: "jsval \<Rightarrow> jsnum" where
  "toNumberJs JUndefined = NaN"
| "toNumberJs JNull = Fin 0"
| "toNumberJs (JBool b) = Fin (if b then 1 else 0)"
| "toNumberJs (JNum n) = n"
| "toNumberJs (JStr s) = stringToNumber s"
| "toNumberJs (JArr xs) = stringToNumber (toStringJs (JArr xs))"
| "toNumberJs (JObj kvs) = stringToNumber (toStringJs (JObj kvs))"

section \<open>Numeric coercion\<close>

text \<open>
  \<^verbatim>\<open>.replace(/\((.*)\)/, '-$1')\<close> rewrites the first parenthesised group: the
  leftmost \<^verbatim>\<open>(\<close> that has a \<^verbatim>\<open>)\<close> later on the same line, up to the last
  such \<^verbatim>\<open>)\<close> (the dot does not match a line terminator, the star is greedy).
  \<open>parenMatch\<close> takes the text after a \<^verbatim>\<open>(\<close> and returns the group and the
  text after the closing parenthesis.
\<close>

definition parenMatch :: "string \<Rightarrow> (string \<times> string) option" where
  "parenMatch cs =
     (let line = takeWhile (\<lambda>c. \<not> isLineTerminator c) cs in
      if CHR '')'' \<in> set line
      then (let inner = rev (tl (dropWhile (\<lambda>c. c \<noteq> CHR '')'') (rev line)))
            in Some (inner, drop (Suc (length inner)) cs))
      else None)"

fun replaceParen :: "string \<Rightarrow> string" where
  "replaceParen [] = []"
| "replaceParen (c # cs) =
     (if c = CHR ''(''
      then (case parenMatch cs of
              Some (inner, rest) \<Rightarrow> CHR ''-'' # inner @ rest
            | None \<Rightarrow> c # replaceParen cs)
      else c # replaceParen cs)"

text \<open>\<^verbatim>\<open>.replace(/[$,]/g, '')\<close>.\<close>

definition stripCurrency :: "string \<Rightarrow> string" where
  "stripCurrency s = filter (\<lambda>c. c \<noteq> CHR ''$'' \<and> c \<noteq> CHR '','') s"

text \<open>\<^verbatim>\<open>parseNumeric\<close>, the same function in both scripts.\<close>

definition parseNumeric :: "jsval \<Rightarrow> jsnum" where
  "parseNumeric v = (case v of
       JNum n \<Rightarrow> (if isFinite n then n else Fin 0)
     | _ \<Rightarrow>
         if falsy v then Fin 0
         else (let normalized = trim (replaceParen (stripCurrency (toStringJs v)));
                   parsed = stringToNumber normalized
               in if isFinite parsed then parsed else Fin 0))"

section \<open>Shared constants and row access\<close>

definition VALID_STATES :: "string list" where
  "VALID_STATES =
     [''Alabama'', ''Alaska'', ''Arizona'', ''Arkansas'', ''California'', ''Colorado'',
      ''Connecticut'', ''Delaware'', ''Florida'', ''Georgia'', ''Hawaii'', ''Idaho'',
      ''Illinois'', ''Indiana'', ''Iowa'', ''Kansas'', ''Kentucky'', ''Louisiana'', ''Maine'',
      ''Maryland'', ''Massachusetts'', ''Michigan'', ''Minnesota'', ''Mississippi'',
      ''Missouri'', ''Montana'', ''Nebraska'', ''Nevada'', ''New Hampshire'', ''New Jersey'',
      ''New Mexico'', ''New York'', ''North Carolina'', ''North Dakota'', ''Ohio'',
      ''Oklahoma'', ''Oregon'', ''Pennsylvania'', ''Rhode Island'', ''South Carolina'',
      ''South Dakota'', ''Tennessee'', ''Texas'', ''Utah'', ''Vermont'', ''Virginia'',
      ''Washington'', ''West Virginia'', ''Wisconsin'', ''Wyoming'']"

definition CENSUS_TAX_CODE_TO_TYPE :: "(string \<times> string) list" where
  "CENSUS_TAX_CODE_TO_TYPE =
     [(''LF0022'', ''Individual income tax''),
      (''LF0023'', ''Corporate income tax''),
      (''LF0011'', ''General sales tax''),
      (''LF0012'', ''Selective sales tax''),
      (''LF0009'', ''Property tax''),
      (''LF0033'', ''Other tax'')]"

definition LICENSE_CODES :: "string list" where
  "LICENSE_CODES =
     [''LF0024'', ''LF0025'', ''LF0026'', ''LF0027'', ''LF0028'', ''LF0029'', ''LF0030'',
      ''LF0031'', ''LF0032'']"

text \<open>
  A row is an object with string keys, kept as an association list of its own properties.
  Reading a property that the row does not have gives \<^verbatim>\<open>undefined\<close>: the column
  names that the scripts and their configurations read are taken not to name a property
  inherited from \<^verbatim>\<open>Object.prototype\<close>, and no header is named \<^verbatim>\<open>__proto__\<close>.
\<close>

type_synonym rawRecord = "(string \<times> jsval) list"

definition getProp :: "rawRecord \<Rightarrow> string \<Rightarrow> jsval" where
  "getProp row k = (case map_of row k of None \<Rightarrow> JUndefined | Some v \<Rightarrow> v)"

definition hasOwn :: "rawRecord \<Rightarrow> string \<Rightarrow> bool" where
  "hasOwn row k = (map_of row k \<noteq> None)"

definition normalizeState :: "jsval \<Rightarrow> string" where
  "normalizeState v = trim (toStringJs (nullish v (JStr [])))"

fun pickColumn :: "rawRecord \<Rightarrow> string list \<Rightarrow> jsval" where
  "pickColumn row [] = JUndefined"
| "pickColumn row (alias # aliases) =
     (if hasOwn row alias then getProp row alias else pickColumn row aliases)"

section \<open>Normalization of the downloaded sources\<close>

text \<open>The part of \<^verbatim>\<open>source-download.config.json\<close> that normalization reads: the
  target year and the column aliases of each logical field.\<close>

record normalizeConfig =
  cfgYear :: jsval
  taxStateAliases :: "string list"
  taxYearAliases :: "string list"
  taxTypeAliases :: "string list"
  taxStateRevenueAliases :: "string list"
  taxLocalRevenueAliases :: "string list"
  popStateAliases :: "string list"
  popYearAliases :: "string list"
  popPopulationAliases :: "string list"

text \<open>A normalized tax row. The two amounts are results of \<open>parseNumeric\<close> and sums of
  such results, hence finite; they are kept as rationals.\<close>

record taxRow =
  state :: string
  year :: jsnum
  tax_type :: string
  state_tax_revenue :: rat
  local_tax_revenue :: rat

subsection \<open>\<^verbatim>\<open>normalizeTaxFromCensusApiRows\<close>\<close>

text \<open>The category of a statistical code: the lookup table first, then the licence codes;
  \<open>None\<close> when the row is skipped.\<close>

definition censusTaxType :: "string \<Rightarrow> string option" where
  "censusTaxType code =
     (case map_of CENSUS_TAX_CODE_TO_TYPE code of
        Some taxType \<Rightarrow> Some taxType
      | None \<Rightarrow> if code \<in> set LICENSE_CODES then Some ''License tax'' else None)"

text \<open>
  The bucket is a \<^verbatim>\<open>Map\<close>: an association list in insertion order, where setting
  a key that is present replaces its value in place. Its key is the string
  \<^verbatim>\<open>state||year||taxType\<close>; the state is a roster name and the tax type one of seven
  labels, none of which contains \<^verbatim>\<open>||\<close>, so the key is kept as the triple it encodes.
\<close>

type_synonym bucketKey = "string \<times> jsnum \<times> string"

definition censusRowState :: "rawRecord \<Rightarrow> string" where
  "censusRowState row =
     normalizeState (nullish (nullish (getProp row ''NAME'') (getProp row ''state'')) (getProp row ''State''))"

text \<open>One iteration of the loop over the rows.\<close>

definition censusRow :: "normalizeConfig \<Rightarrow> rawRecord \<Rightarrow> (bucketKey \<times> taxRow) list \<Rightarrow> (bucketKey \<times> taxRow) list" where
  "censusRow config row bucket =
     (let st = censusRowState row;
          yr = toNumberJs (nullish (nullish (getProp row ''YEAR'') (getProp row ''year'')) (cfgYear config));
          code = trim (toStringJs (nullish (getProp row ''AGG_DESC'') (JStr [])));
          govType = trim (toStringJs (nullish (getProp row ''GOVTYPE'') (JStr [])))
      in if st = [] \<or> st \<notin> set VALID_STATES \<or> code = [] \<or> govType \<notin> set [''002'', ''003'']
         then bucket
         else case censusTaxType code of
                None \<Rightarrow> bucket
              | Some taxType \<Rightarrow>
                  (let amount = finVal (parseNumeric (getProp row ''AMOUNT''));
                       mapKey = (st, yr, taxType);
                       current = (case map_of bucket mapKey of
                                    Some c \<Rightarrow> c
                                  | None \<Rightarrow> \<lparr>state = st, year = yr, tax_type = taxType,
                                             state_tax_revenue = 0, local_tax_revenue = 0\<rparr>);
                       current1 = (if govType = ''002''
                                   then current\<lparr>state_tax_revenue := state_tax_revenue current + amount\<rparr>
                                   else current);
                       current2 = (if govType = ''003''
                                   then current1\<lparr>local_tax_revenue := local_tax_revenue current1 + amount\<rparr>
                                   else current1)
                   in AList.update mapKey current2 bucket))"

text \<open>The bucket after the loop, and the rows the function returns.\<close>

definition censusBucket :: "normalizeConfig \<Rightarrow> rawRecord list \<Rightarrow> (bucketKey \<times> taxRow) list" where
  "censusBucket config rows = fold (censusRow config) rows []"

definition normalizeTaxFromCensusApiRows :: "rawRecord list \<Rightarrow> normalizeConfig \<Rightarrow> taxRow list" where
  "normalizeTaxFromCensusApiRows rows config =
     filter (\<lambda>row. 0 < state_tax_revenue row \<or> 0 < local_tax_revenue row)
       (map snd (censusBucket config rows))"

subsection \<open>The rows of \<^verbatim>\<open>run\<close>\<close>

definition taxRowsLookLikeCensusApi :: "rawRecord list \<Rightarrow> bool" where
  "taxRowsLookLikeCensusApi taxRows =
     (case taxRows of
        [] \<Rightarrow> False
      | r # rs \<Rightarrow> hasOwn r ''AGG_DESC'' \<and> hasOwn r ''GOVTYPE'' \<and> hasOwn r ''AMOUNT'')"

text \<open>The other branch: rows that already carry the amount columns, read through the
  configured aliases.\<close>

definition aliasedTaxRow :: "normalizeConfig \<Rightarrow> rawRecord \<Rightarrow> taxRow" where
  "aliasedTaxRow config row =
     \<lparr>state = normalizeState (pickColumn row (taxStateAliases config)),
      year = toNumberJs (nullish (pickColumn row (taxYearAliases config)) (cfgYear config)),
      tax_type = trim (toStringJs (nullish (pickColumn row (taxTypeAliases config)) (JStr []))),
      state_tax_revenue = finVal (parseNumeric (pickColumn row (taxStateRevenueAliases config))),
      local_tax_revenue = finVal (parseNumeric (pickColumn row (taxLocalRevenueAliases config)))\<rparr>"

definition normalizeTaxFromAliasedRows :: "rawRecord list \<Rightarrow> normalizeConfig \<Rightarrow> taxRow list" where
  "normalizeTaxFromAliasedRows taxRows config =
     filter (\<lambda>row. state row \<noteq> [] \<and> tax_type row \<noteq> [] \<and> state row \<in> set VALID_STATES)
       (map (aliasedTaxRow config) taxRows)"

definition normalizedTaxRows :: "normalizeConfig \<Rightarrow> rawRecord list \<Rightarrow> taxRow list" where
  "normalizedTaxRows config taxRows =
     (if taxRowsLookLikeCensusApi taxRows
      then normalizeTaxFromCensusApiRows taxRows config
      else normalizeTaxFromAliasedRows taxRows config)"

section \<open>Reading a source file\<close>

text \<open>
  Every \<^verbatim>\<open>throw\<close> of the two scripts, and the two ways the runtime itself fails in
  \<open>parseCensusApiJson\<close>: \<^verbatim>\<open>JSON.parse\<close> rejecting the text, and reading an index of
  \<^verbatim>\<open>null\<close>.
\<close>

datatype error =
    SourceFileEmpty
  | CsvParsingFailed "string list"
  | JsonSyntaxError
  | UnexpectedCensusJson
  | RowTypeError
  | MissingSourceFile
  | NoPopulationRows

text \<open>
  The CSV parser (Papa Parse, with a header row) and the JSON decoder are libraries. They
  are parameters here: the parser maps the text to its error messages and its records, the
  decoder maps the text to the decoded value, or to \<open>None\<close> when it raises.
\<close>

record papaResult =
  papaErrors :: "string list"
  papaData :: "rawRecord list"

type_synonym csvParser = "string \<Rightarrow> papaResult"









section \<open>Ingestion\<close>

text \<open>The configuration \<^verbatim>\<open>ingestion.config.json\<close>: the target year, the number of
  states to keep, the column name of each field, and the two optional lookups (an absent
  lookup is the empty one; their values are strings, and they are read by own property).\<close>

record ingestConfig =
  cfg_year :: jsnum
  topNStates :: int
  taxStateColumn :: string
  taxYearColumn :: string
  taxTypeColumn :: string
  taxStateRevenueColumn :: string
  taxLocalRevenueColumn :: string
  popStateColumn :: string
  popYearColumn :: string
  popPopulationColumn :: string
  taxTypeMap :: "(string \<times> string) list"
  taxTypeLabels :: "(string \<times> string) list"

text \<open>\<^verbatim>\<open>readCsv\<close>; the file is \<open>None\<close> when it does not exist.\<close>

definition readCsv :: "csvParser \<Rightarrow> string option \<Rightarrow> error + rawRecord list" where
  "readCsv papa file =
     (case file of
        None \<Rightarrow> Inl MissingSourceFile
      | Some content \<Rightarrow>
          (let parsed = papa content in
           if papaErrors parsed \<noteq> [] then Inl (CsvParsingFailed (papaErrors parsed))
           else Inr (papaData parsed)))"

subsection \<open>\<^verbatim>\<open>toTaxTypeKey\<close>\<close>

definition toLowerAscii :: "char \<Rightarrow> char" where
  "toLowerAscii c =
     (case map_of (zip ''ABCDEFGHIJKLMNOPQRSTUVWXYZ'' ''abcdefghijklmnopqrstuvwxyz'') c of
        Some l \<Rightarrow> l
      | None \<Rightarrow> c)"

definition isKeyChar :: "char \<Rightarrow> bool" where
  "isKeyChar c = ((97 \<le> (of_char c :: nat) \<and> (of_char c :: nat) \<le> 122) \<or> isDigit c)"

text \<open>\<^verbatim>\<open>.replace(/[^a-z0-9]+/g, '_')\<close>: every maximal run of other characters becomes
  one underscore.\<close>

function collapseRuns :: "string \<Rightarrow> string" where
  "collapseRuns [] = []"
| "collapseRuns (c # cs) =
     (if isKeyChar c then c # collapseRuns cs
      else CHR ''_'' # collapseRuns (dropWhile (\<lambda>d. \<not> isKeyChar d) cs))"
  by pat_completeness auto
termination
  by (relation "measure length") (auto simp: le_imp_less_Suc length_dropWhile_le)

text \<open>\<^verbatim>\<open>.replace(/^_+|_+$/g, '')\<close>.\<close>

definition stripUnderscores :: "string \<Rightarrow> string" where
  "stripUnderscores s =
     rev (dropWhile (\<lambda>c. c = CHR ''_'') (rev (dropWhile (\<lambda>c. c = CHR ''_'') s)))"

definition toTaxTypeKey :: "jsval \<Rightarrow> string" where
  "toTaxTypeKey v =
     stripUnderscores (collapseRuns (map toLowerAscii (trim (toStringJs (nullish v (JStr []))))))"

subsection \<open>The population of each state\<close>

text \<open>The year test of both loops: \<^verbatim>\<open>Number.isFinite(rowYear) && rowYear !== config.year\<close>
  on \<^verbatim>\<open>rowYear = Number(cell)\<close>.\<close>

definition yearExcluded :: "ingestConfig \<Rightarrow> jsval \<Rightarrow> bool" where
  "yearExcluded config cell =
     (let rowYear = toNumberJs cell in isFinite rowYear \<and> strictNeq rowYear (cfg_year config))"

text \<open>One iteration of the loop over the population rows. \<^verbatim>\<open>populationByState\<close> is a
  \<^verbatim>\<open>Map\<close>: setting a state that is present replaces its value and keeps its place.\<close>

definition populationRow :: "ingestConfig \<Rightarrow> rawRecord \<Rightarrow> (string \<times> rat) list \<Rightarrow> (string \<times> rat) list" where
  "populationRow config row populationByState =
     (if yearExcluded config (getProp row (popYearColumn config)) then populationByState
      else (let st = normalizeState (getProp row (popStateColumn config)) in
            if st = [] \<or> st \<notin> set VALID_STATES then populationByState
            else (let population = finVal (parseNumeric (getProp row (popPopulationColumn config))) in
                  if 0 < population then AList.update st population populationByState
                  else populationByState)))"

definition populationByState :: "ingestConfig \<Rightarrow> rawRecord list \<Rightarrow> (string \<times> rat) list" where
  "populationByState config populationRows = fold (populationRow config) populationRows []"

text \<open>\<^verbatim>\<open>.slice(0, n)\<close>: a negative \<open>n\<close> counts from the end.\<close>

definition slice0 :: "int \<Rightarrow> 'a list \<Rightarrow> 'a list" where
  "slice0 n xs = (if n < 0 then take (nat (int (length xs) + n)) xs else take (nat n) xs)"

text \<open>\<^verbatim>\<open>.sort((a, b) => b[1] - a[1])\<close>: the sort of an array is stable, and on finite
  numbers this comparator orders by descending value, so the result is the stable sort by
  the negated value.\<close>

definition rankedEntries :: "(string \<times> rat) list \<Rightarrow> (string \<times> rat) list" where
  "rankedEntries entries = sort_key (\<lambda>e. - snd e) entries"

definition topStates :: "ingestConfig \<Rightarrow> (string \<times> rat) list \<Rightarrow> string list" where
  "topStates config entries = map fst (slice0 (topNStates config) (rankedEntries entries))"

subsection \<open>Aggregation of the tax rows\<close>

text \<open>
  The breakdown of a state is a plain object with the tax-type keys as properties. Reading
  \<^verbatim>\<open>breakdown[key]\<close> for a key the object does not have itself gives \<^verbatim>\<open>undefined\<close>,
  unless the key names a property that every object inherits from \<^verbatim>\<open>Object.prototype\<close>:
  then it gives that function or object. Adding a number to such a value, or to a string,
  builds a string. So the value of a breakdown property is an amount or such a string, whose
  text is not modelled. The properties are listed in insertion order (an object lists keys
  that look like array indices first; nothing below depends on the order).
\<close>

definition OBJECT_PROTOTYPE_KEYS :: "string list" where
  "OBJECT_PROTOTYPE_KEYS =
     [''constructor'', ''__defineGetter__'', ''__defineSetter__'', ''hasOwnProperty'',
      ''__lookupGetter__'', ''__lookupSetter__'', ''isPrototypeOf'', ''propertyIsEnumerable'',
      ''toString'', ''valueOf'', ''__proto__'', ''toLocaleString'']"

datatype breakdownValue = Amount rat | NotAmount

record aggregate =
  aggState :: string
  aggPopulation :: rat
  aggTotalRevenue :: rat
  aggBreakdown :: "(string \<times> breakdownValue) list"

text \<open>The three variables the loop over the tax rows updates.\<close>

record taxLoopState =
  stateAggregation :: "(string \<times> aggregate) list"
  taxTypeOrder :: "string list"
  taxTypeSeen :: "string list"

definition taxTypeKeyOf :: "ingestConfig \<Rightarrow> string \<Rightarrow> string" where
  "taxTypeKeyOf config rawTaxType =
     (case map_of (taxTypeMap config) rawTaxType of
        Some k \<Rightarrow> k
      | None \<Rightarrow> toTaxTypeKey (JStr rawTaxType))"

text \<open>The parts of the loop body: recording a tax-type key the first time it is seen, the
  aggregate of a state so far (a fresh one, with the resolved population, when the state has
  none), and adding the amount of a row to an aggregate.\<close>

definition seeTaxType :: "string \<Rightarrow> taxLoopState \<Rightarrow> taxLoopState" where
  "seeTaxType taxTypeKey s =
     (if taxTypeKey \<notin> set (taxTypeSeen s)
      then s\<lparr>taxTypeOrder := taxTypeOrder s @ [taxTypeKey],
             taxTypeSeen := taxTypeSeen s @ [taxTypeKey]\<rparr>
      else s)"

definition existingAggregate :: "(string \<times> rat) list \<Rightarrow> (string \<times> aggregate) list \<Rightarrow> string \<Rightarrow> aggregate" where
  "existingAggregate byState aggregation st =
     (case map_of aggregation st of
        Some e \<Rightarrow> e
      | None \<Rightarrow>
          \<lparr>aggState = st,
           aggPopulation = (case map_of byState st of Some p \<Rightarrow> p | None \<Rightarrow> 0),
           aggTotalRevenue = 0,
           aggBreakdown = []\<rparr>)"

text \<open>\<^verbatim>\<open>existing.breakdown[taxTypeKey] ?? 0\<close>, then \<^verbatim>\<open>+ totalTax\<close>, then the
  assignment to \<^verbatim>\<open>existing.breakdown[taxTypeKey]\<close>: it sets the property, except that an
  assignment of a string to \<^verbatim>\<open>__proto__\<close> does nothing.\<close>

definition readBreakdown :: "(string \<times> breakdownValue) list \<Rightarrow> string \<Rightarrow> breakdownValue" where
  "readBreakdown properties taxTypeKey =
     (case map_of properties taxTypeKey of
        Some v \<Rightarrow> v
      | None \<Rightarrow> if taxTypeKey \<in> set OBJECT_PROTOTYPE_KEYS then NotAmount else Amount 0)"

fun plusTax :: "breakdownValue \<Rightarrow> rat \<Rightarrow> breakdownValue" where
  "plusTax (Amount x) totalTax = Amount (x + totalTax)"
| "plusTax NotAmount totalTax = NotAmount"

definition writeBreakdown :: "string \<Rightarrow> breakdownValue \<Rightarrow> (string \<times> breakdownValue) list \<Rightarrow> (string \<times> breakdownValue) list" where
  "writeBreakdown taxTypeKey v properties =
     (if taxTypeKey = ''__proto__'' \<and> v = NotAmount then properties
      else AList.update taxTypeKey v properties)"

definition addTax :: "string \<Rightarrow> rat \<Rightarrow> aggregate \<Rightarrow> aggregate" where
  "addTax taxTypeKey totalTax existing =
     existing
       \<lparr>aggBreakdown :=
          writeBreakdown taxTypeKey
            (plusTax (readBreakdown (aggBreakdown existing) taxTypeKey) totalTax)
            (aggBreakdown existing),
        aggTotalRevenue := aggTotalRevenue existing + totalTax\<rparr>"

text \<open>One iteration of the loop over the tax rows.\<close>

definition taxRowStep :: "ingestConfig \<Rightarrow> (string \<times> rat) list \<Rightarrow> string list \<Rightarrow> rawRecord \<Rightarrow> taxLoopState \<Rightarrow> taxLoopState" where
  "taxRowStep config byState topStateSet row s =
     (if yearExcluded config (getProp row (taxYearColumn config)) then s
      else (let st = normalizeState (getProp row (taxStateColumn config)) in
            if st \<notin> set topStateSet then s
            else (let rawTaxType = trim (toStringJs (nullish (getProp row (taxTypeColumn config)) (JStr []))) in
                  if rawTaxType = [] then s
                  else (let taxTypeKey = taxTypeKeyOf config rawTaxType;
                            s1 = seeTaxType taxTypeKey s;
                            stateTax = finVal (parseNumeric (getProp row (taxStateRevenueColumn config)));
                            localTax = finVal (parseNumeric (getProp row (taxLocalRevenueColumn config)));
                            totalTax = stateTax + localTax;
                            existing = existingAggregate byState (stateAggregation s1) st
                        in s1\<lparr>stateAggregation :=
                                AList.update st (addTax taxTypeKey totalTax existing)
                                  (stateAggregation s1)\<rparr>))))"

definition taxLoop :: "ingestConfig \<Rightarrow> (string \<times> rat) list \<Rightarrow> string list \<Rightarrow> rawRecord list \<Rightarrow> taxLoopState" where
  "taxLoop config byState topStateSet taxRows =
     fold (taxRowStep config byState topStateSet) taxRows
       \<lparr>stateAggregation = [], taxTypeOrder = [], taxTypeSeen = []\<rparr>"

subsection \<open>The output payload\<close>

text \<open>\<^verbatim>\<open>Math.round\<close> (halves go up) and \<^verbatim>\<open>Number(x.toFixed(2))\<close>: the nearest
  multiple of 1/100, a tie going away from zero; from \<open>10^21\<close> on \<^verbatim>\<open>toFixed\<close> prints
  the number itself.\<close>

definition mathRound :: "rat \<Rightarrow> rat" where
  "mathRound x = of_int \<lfloor>x + 1 / 2\<rfloor>"

definition toFixed2 :: "rat \<Rightarrow> rat" where
  "toFixed2 x =
     (if 10 ^ 21 \<le> \<bar>x\<bar> then x
      else if x < 0 then - (of_int \<lfloor>(- x) * 100 + 1 / 2\<rfloor> / 100)
      else of_int \<lfloor>x * 100 + 1 / 2\<rfloor> / 100)"

record outputState =
  outState :: string
  population :: rat
  totalRevenue :: rat
  perCapitaTotal :: rat
  breakdown :: "(string \<times> breakdownValue) list"

definition finalState :: "aggregate \<Rightarrow> outputState" where
  "finalState a =
     (let pop = aggPopulation a;
          perCapita = (if 0 < pop then aggTotalRevenue a / pop else 0)
      in \<lparr>outState = aggState a,
          population = aggPopulation a,
          totalRevenue = mathRound (aggTotalRevenue a),
          perCapitaTotal = toFixed2 perCapita,
          breakdown = aggBreakdown a\<rparr>)"

definition finalStates :: "(string \<times> aggregate) list \<Rightarrow> outputState list" where
  "finalStates aggregation = sort_key (\<lambda>s. - totalRevenue s) (map (finalState \<circ> snd) aggregation)"

record metadata =
  metaYear :: jsnum
  metaCurrency :: string
  metaScope :: string
  metaTopN :: int
  metaNotes :: "string list"
  generatedAt :: string

record payload =
  metadata :: metadata
  taxTypes :: "(string \<times> string) list"
  states :: "outputState list"

text \<open>\<^verbatim>\<open>run\<close> of the ingestion script, as a function of the parser, the configuration,
  the two files and the clock (the time stamp that \<^verbatim>\<open>new Date()\<close> gives). The payload
  is what the script writes.\<close>

definition run :: "csvParser \<Rightarrow> ingestConfig \<Rightarrow> string option \<Rightarrow> string option \<Rightarrow> string \<Rightarrow> error + payload" where
  "run papa config taxFile populationFile now =
     (case readCsv papa taxFile of
        Inl e \<Rightarrow> Inl e
      | Inr taxRows \<Rightarrow>
          (case readCsv papa populationFile of
             Inl e \<Rightarrow> Inl e
           | Inr populationRows \<Rightarrow>
               (let byState = populationByState config populationRows in
                if byState = [] then Inl NoPopulationRows
                else (let top = topStates config byState;
                          loop = taxLoop config byState top taxRows
                      in Inr \<lparr>metadata =
                                \<lparr>metaYear = cfg_year config,
                                 metaCurrency = ''USD'',
                                 metaScope = ''state+local'',
                                 metaTopN = topNStates config,
                                 metaNotes = [''Nominal dollars.'',
                                          ''Top states selected by population for the same year.''],
                                 generatedAt = now\<rparr>,
                              taxTypes = map (\<lambda>k. (k, case map_of (taxTypeLabels config) k of
                                                          Some l \<Rightarrow> l | None \<Rightarrow> k))
                                           (taxTypeOrder loop),
                              states = finalStates (stateAggregation loop)\<rparr>))))"

subsection \<open>The tests of the loops, as predicates\<close>

text \<open>The tests of the statistical-code loop on one row, as functions of the row: the key
  of its bucket (\<open>None\<close> when the row is skipped), its government type and its amount; and
  the sums of the amounts of the rows of one bucket, for each government type.\<close>

definition censusRowKey :: "normalizeConfig \<Rightarrow> rawRecord \<Rightarrow> bucketKey option" where
  "censusRowKey config row =
     (let st = censusRowState row;
          yr = toNumberJs (nullish (nullish (getProp row ''YEAR'') (getProp row ''year'')) (cfgYear config));
          code = trim (toStringJs (nullish (getProp row ''AGG_DESC'') (JStr [])));
          govType = trim (toStringJs (nullish (getProp row ''GOVTYPE'') (JStr [])))
      in if st = [] \<or> st \<notin> set VALID_STATES \<or> code = [] \<or> govType \<notin> set [''002'', ''003'']
         then None
         else map_option (\<lambda>taxType. (st, yr, taxType)) (censusTaxType code))"

definition censusRowGovType :: "rawRecord \<Rightarrow> string" where
  "censusRowGovType row = trim (toStringJs (nullish (getProp row ''GOVTYPE'') (JStr [])))"

definition censusRowAmount :: "rawRecord \<Rightarrow> rat" where
  "censusRowAmount row = finVal (parseNumeric (getProp row ''AMOUNT''))"

definition bucketSum :: "normalizeConfig \<Rightarrow> rawRecord list \<Rightarrow> string \<Rightarrow> bucketKey \<Rightarrow> rat" where
  "bucketSum config rows govType k =
     sum_list (map censusRowAmount
       (filter (\<lambda>r. censusRowKey config r = Some k \<and> censusRowGovType r = govType) rows))"

text \<open>The tests of the population loop on one row, as predicates: the state of the row,
  its population, and whether the row survives the three tests (year, roster, positive
  population) and so reaches \<^verbatim>\<open>populationByState.set\<close>.\<close>

definition popRowState :: "ingestConfig \<Rightarrow> rawRecord \<Rightarrow> string" where
  "popRowState config row = normalizeState (getProp row (popStateColumn config))"

definition popRowValue :: "ingestConfig \<Rightarrow> rawRecord \<Rightarrow> rat" where
  "popRowValue config row = finVal (parseNumeric (getProp row (popPopulationColumn config)))"

definition popRowSurvives :: "ingestConfig \<Rightarrow> rawRecord \<Rightarrow> bool" where
  "popRowSurvives config row =
     (\<not> yearExcluded config (getProp row (popYearColumn config))
      \<and> popRowState config row \<noteq> []
      \<and> popRowState config row \<in> set VALID_STATES
      \<and> 0 < popRowValue config row)"

text \<open>The tests of the tax loop on one row, as predicates: the state of the row, its raw
  tax type, the key of that type, its amount (state plus local), and whether the row passes
  the three tests (year, selected state, non-empty tax type) and so is added.\<close>

definition taxRowState :: "ingestConfig \<Rightarrow> rawRecord \<Rightarrow> string" where
  "taxRowState config row = normalizeState (getProp row (taxStateColumn config))"

definition taxRowRawType :: "ingestConfig \<Rightarrow> rawRecord \<Rightarrow> string" where
  "taxRowRawType config row = trim (toStringJs (nullish (getProp row (taxTypeColumn config)) (JStr [])))"

definition taxRowTotal :: "ingestConfig \<Rightarrow> rawRecord \<Rightarrow> rat" where
  "taxRowTotal config row =
     finVal (parseNumeric (getProp row (taxStateRevenueColumn config)))
     + finVal (parseNumeric (getProp row (taxLocalRevenueColumn config)))"

definition taxRowCounts :: "ingestConfig \<Rightarrow> string list \<Rightarrow> rawRecord \<Rightarrow> bool" where
  "taxRowCounts config topStateSet row =
     (\<not> yearExcluded config (getProp row (taxYearColumn config))
      \<and> taxRowState config row \<in> set topStateSet
      \<and> taxRowRawType config row \<noteq> [])"




subsection \<open>Sample inputs\<close>

text \<open>A configuration for the target year 2023, with the column names of the catalogued
  CSV schema as aliases, and a few source rows used to evaluate the functions.\<close>

definition sampleNormalizeConfig :: normalizeConfig where
  "sampleNormalizeConfig =
     \<lparr>cfgYear = JNum (Fin 2023),
      taxStateAliases = [''state'', ''State''],
      taxYearAliases = [''year''],
      taxTypeAliases = [''tax_type''],
      taxStateRevenueAliases = [''state_tax_revenue''],
      taxLocalRevenueAliases = [''local_tax_revenue''],
      popStateAliases = [''state''],
      popYearAliases = [''year''],
      popPopulationAliases = [''population'']\<rparr>"

definition censusSampleRow :: "string \<Rightarrow> string \<Rightarrow> string \<Rightarrow> string \<Rightarrow> string \<Rightarrow> rawRecord" where
  "censusSampleRow name yr code govType amount =
     [(''NAME'', JStr name), (''YEAR'', JStr yr), (''AGG_DESC'', JStr code),
      (''GOVTYPE'', JStr govType), (''AMOUNT'', JStr amount)]"

definition aliasedSampleRow :: "string \<Rightarrow> string \<Rightarrow> string \<Rightarrow> string \<Rightarrow> string \<Rightarrow> rawRecord" where
  "aliasedSampleRow name yr taxType stateAmount localAmount =
     [(''state'', JStr name), (''year'', JStr yr), (''tax_type'', JStr taxType),
      (''state_tax_revenue'', JStr stateAmount), (''local_tax_revenue'', JStr localAmount)]"



text \<open>An ingestion configuration for 2023 and the two most populous states, with the
  column names of the catalogued CSV schema, and a population row in that schema.\<close>

definition sampleIngestConfig :: ingestConfig where
  "sampleIngestConfig =
     \<lparr>cfg_year = Fin 2023,
      topNStates = 2,
      taxStateColumn = ''state'',
      taxYearColumn = ''year'',
      taxTypeColumn = ''tax_type'',
      taxStateRevenueColumn = ''state_tax_revenue'',
      taxLocalRevenueColumn = ''local_tax_revenue'',
      popStateColumn = ''state'',
      popYearColumn = ''year'',
      popPopulationColumn = ''population'',
      taxTypeMap = [],
      taxTypeLabels = []\<rparr>"

definition populationSampleRow :: "string \<Rightarrow> string \<Rightarrow> string \<Rightarrow> rawRecord" where
  "populationSampleRow name yr pop = [(''state'', JStr name), (''year'', JStr yr), (''population'', JStr pop)]"

text \<open>A parser without errors whose records are looked up in a table of known texts.\<close>

definition tableParser :: "(string \<times> rawRecord list) list \<Rightarrow> csvParser" where
  "tableParser table content =
     \<lparr>papaErrors = [], papaData = (case map_of table content of Some rows \<Rightarrow> rows | None \<Rightarrow> [])\<rparr>"

definition samplePopulationRows :: "rawRecord list" where
  "samplePopulationRows =
     [populationSampleRow ''Texas'' ''2023'' ''50'',
      populationSampleRow ''Ohio'' ''2023'' ''300'',
      populationSampleRow ''Utah'' ''2023'' ''200'',
      populationSampleRow ''Texas'' ''2023'' ''100'',
      populationSampleRow ''Puerto Rico'' ''2023'' ''900'',
      populationSampleRow ''Iowa'' ''2022'' ''999'']"

text \<open>Two small inputs of a whole run: three tax rows under the six population rows above,
  and one tax row of 2.5 for a state of population 2.\<close>

definition sampleTaxRows :: "rawRecord list" where
  "sampleTaxRows =
     [aliasedSampleRow ''Texas'' ''2023'' ''Property'' ''10'' ''5'',
      aliasedSampleRow ''Ohio'' ''2023'' ''Property'' ''2.5'' ''0'',
      aliasedSampleRow ''Ohio'' ''2023'' ''Sales'' ''10'' ''0'']"

definition sampleParser :: csvParser where
  "sampleParser = tableParser [(''tax'', sampleTaxRows), (''pop'', samplePopulationRows)]"


section \<open>Properties of the numeric coercion\<close>

lemma parseNumeric_isFinite: "isFinite (parseNumeric v)"
  by (cases v) (simp_all add: parseNumeric_def Let_def)

lemma parseNumeric_Fin: "parseNumeric v = Fin (finVal (parseNumeric v))"
  using parseNumeric_isFinite [of v] by (cases "parseNumeric v") simp_all

lemmas num_defs = parseNumeric_def stripCurrency_def trim_def isWhiteSpace_def
  stringToNumber_def strDecimalLiteral_def strUnsigned_def strUnsignedDecimal_def isDigit_def
  digitsVal_def digitVal_def exponentPart_def scale10_def toDouble_def parenMatch_def
  isLineTerminator_def allDigits_def nonDecimalLiteral_def digitOf_def Let_def



section \<open>Properties of the normalization\<close>

subsection \<open>Evaluation on literals\<close>

lemma parse_1000: "parseNumeric (JStr ''1,000'') = Fin 1000"
  by (simp add: num_defs)
lemma parse_500: "parseNumeric (JStr ''500'') = Fin 500"
  by (simp add: num_defs)
lemma parse_neg500: "parseNumeric (JStr ''(500)'') = Fin (- 500)"
  by (simp add: num_defs)

lemma trim_Texas: "trim ''Texas'' = ''Texas''"
  by (simp add: trim_def isWhiteSpace_def)
lemma trim_LF0009: "trim ''LF0009'' = ''LF0009''"
  by (simp add: trim_def isWhiteSpace_def)
lemma trim_002: "trim ''002'' = ''002''"
  by (simp add: trim_def isWhiteSpace_def)
lemma trim_003: "trim ''003'' = ''003''"
  by (simp add: trim_def isWhiteSpace_def)
lemma Texas_valid: "''Texas'' \<in> set VALID_STATES"
  by (simp add: VALID_STATES_def)
lemma LF0009_type: "censusTaxType ''LF0009'' = Some ''Property tax''"
  by (simp add: censusTaxType_def CENSUS_TAX_CODE_TO_TYPE_def)

lemma trim_2022: "trim ''2022'' = ''2022''"
  by (simp add: trim_def isWhiteSpace_def)

lemma number_2022: "stringToNumber ''2022'' = Fin 2022"
  by (simp add: num_defs)

lemma parse_1000_plain: "parseNumeric (JStr ''1000'') = Fin 1000"
  by (simp add: num_defs)

lemma trim_Puerto_Rico: "trim ''Puerto Rico'' = ''Puerto Rico''"
  by (simp add: trim_def isWhiteSpace_def)

lemma Puerto_Rico_invalid: "''Puerto Rico'' \<notin> set VALID_STATES"
  by (simp add: VALID_STATES_def)

lemmas census_eval = normalizeTaxFromCensusApiRows_def censusBucket_def censusRow_def
  censusRowState_def normalizeState_def getProp_def censusSampleRow_def trim_Texas trim_LF0009
  trim_002 trim_003 Texas_valid LF0009_type parse_1000 parse_500 parse_neg500 number_2022
  parse_1000_plain trim_Puerto_Rico Puerto_Rico_invalid Let_def

subsection \<open>Invariants of the bucket\<close>

lemma in_set_updateD:
  "(k', v') \<in> set (AList.update k v al) \<Longrightarrow> (k', v') = (k, v) \<or> (k', v') \<in> set al"
  by (induction al) (auto split: if_splits)

lemma fold_invariant:
  "(\<And>x a. x \<in> set xs \<Longrightarrow> I a \<Longrightarrow> I (f x a)) \<Longrightarrow> I a0 \<Longrightarrow> I (fold f xs a0)"
  by (induction xs arbitrary: a0) auto



lemma censusRow_entries:
  assumes "(k, v) \<in> set (censusRow config row bucket)"
  shows "(k, v) \<in> set bucket
     \<or> (\<exists>c. (c \<in> snd ` set bucket
              \<or> (state c \<in> set VALID_STATES \<and> state_tax_revenue c = 0 \<and> local_tax_revenue c = 0))
          \<and> state v = state c
          \<and> ((state_tax_revenue v = state_tax_revenue c + finVal (parseNumeric (getProp row ''AMOUNT''))
                \<and> local_tax_revenue v = local_tax_revenue c)
              \<or> (state_tax_revenue v = state_tax_revenue c
                \<and> local_tax_revenue v = local_tax_revenue c + finVal (parseNumeric (getProp row ''AMOUNT'')))))"
proof (cases "censusRow config row bucket = bucket")
  case True
  with assms show ?thesis by simp
next
  case False
  define st where "st = censusRowState row"
  define yr where "yr = toNumberJs (nullish (nullish (getProp row ''YEAR'') (getProp row ''year'')) (cfgYear config))"
  define code where "code = trim (toStringJs (nullish (getProp row ''AGG_DESC'') (JStr [])))"
  define govType where "govType = trim (toStringJs (nullish (getProp row ''GOVTYPE'') (JStr [])))"
  define amount where "amount = finVal (parseNumeric (getProp row ''AMOUNT''))"
  from False have ok: "st \<in> set VALID_STATES" "govType = ''002'' \<or> govType = ''003''"
    by (auto simp: censusRow_def Let_def st_def govType_def split: if_splits)
  from False obtain taxType where tt: "censusTaxType code = Some taxType"
    by (cases "censusTaxType code") (auto simp: censusRow_def Let_def code_def split: if_splits)
  define current where "current = (case map_of bucket (st, yr, taxType) of
        Some c \<Rightarrow> c
      | None \<Rightarrow> \<lparr>state = st, year = yr, tax_type = taxType, state_tax_revenue = 0, local_tax_revenue = 0\<rparr>)"
  define current2 where "current2 = (if govType = ''002''
        then current\<lparr>state_tax_revenue := state_tax_revenue current + amount\<rparr>
        else current\<lparr>local_tax_revenue := local_tax_revenue current + amount\<rparr>)"
  have res: "censusRow config row bucket = AList.update (st, yr, taxType) current2 bucket"
    using False ok tt
    unfolding censusRow_def Let_def current2_def current_def st_def yr_def code_def
      govType_def amount_def
    by (auto split: if_splits)
  have cur: "current \<in> snd ` set bucket
     \<or> (state current \<in> set VALID_STATES \<and> state_tax_revenue current = 0 \<and> local_tax_revenue current = 0)"
  proof (cases "map_of bucket (st, yr, taxType)")
    case None
    then show ?thesis using ok by (simp add: current_def)
  next
    case (Some c)
    then have "((st, yr, taxType), c) \<in> set bucket" by (rule map_of_SomeD)
    then show ?thesis using Some by (force simp: current_def)
  qed
  from assms res have "(k, v) = ((st, yr, taxType), current2) \<or> (k, v) \<in> set bucket"
    by (auto dest: in_set_updateD)
  then show ?thesis
  proof
    assume "(k, v) \<in> set bucket" then show ?thesis by simp
  next
    assume "(k, v) = ((st, yr, taxType), current2)"
    then have v: "v = current2" by simp
    have "state v = state current
          \<and> ((state_tax_revenue v = state_tax_revenue current + amount
                \<and> local_tax_revenue v = local_tax_revenue current)
              \<or> (state_tax_revenue v = state_tax_revenue current
                \<and> local_tax_revenue v = local_tax_revenue current + amount))"
      by (simp add: v current2_def)
    with cur show ?thesis unfolding amount_def by blast
  qed
qed



lemma censusRow_nonneg:
  assumes "\<forall>kv \<in> set bucket. 0 \<le> state_tax_revenue (snd kv) \<and> 0 \<le> local_tax_revenue (snd kv)"
    and "0 \<le> finVal (parseNumeric (getProp row ''AMOUNT''))"
  shows "\<forall>kv \<in> set (censusRow config row bucket).
           0 \<le> state_tax_revenue (snd kv) \<and> 0 \<le> local_tax_revenue (snd kv)"
proof
  fix kv assume kv: "kv \<in> set (censusRow config row bucket)"
  obtain k v where [simp]: "kv = (k, v)" by (cases kv)
  from censusRow_entries [of k v config row bucket] kv assms
  show "0 \<le> state_tax_revenue (snd kv) \<and> 0 \<le> local_tax_revenue (snd kv)"
    by auto
qed

lemma censusBucket_nonneg:
  assumes "\<forall>row \<in> set rows. 0 \<le> finVal (parseNumeric (getProp row ''AMOUNT''))"
  shows "\<forall>kv \<in> set (censusBucket config rows).
           0 \<le> state_tax_revenue (snd kv) \<and> 0 \<le> local_tax_revenue (snd kv)"
  unfolding censusBucket_def
proof (rule fold_invariant [where I = "\<lambda>b. \<forall>kv \<in> set b.
           0 \<le> state_tax_revenue (snd kv) \<and> 0 \<le> local_tax_revenue (snd kv)"])
  fix x and a :: "(bucketKey \<times> taxRow) list"
  assume "x \<in> set rows"
    and "\<forall>kv \<in> set a. 0 \<le> state_tax_revenue (snd kv) \<and> 0 \<le> local_tax_revenue (snd kv)"
  with assms show "\<forall>kv \<in> set (censusRow config x a).
           0 \<le> state_tax_revenue (snd kv) \<and> 0 \<le> local_tax_revenue (snd kv)"
    by (intro censusRow_nonneg) auto
qed simp

subsection \<open>The amounts of a bucket\<close>

lemma censusRowKey_govType:
  "censusRowKey config row = Some k \<Longrightarrow> censusRowGovType row = ''002'' \<or> censusRowGovType row = ''003''"
  by (auto simp: censusRowKey_def censusRowGovType_def Let_def split: if_splits)

lemma censusRow_alt:
  "censusRow config row bucket =
     (case censusRowKey config row of
        None \<Rightarrow> bucket
      | Some k \<Rightarrow>
          (let current = (case map_of bucket k of
                            Some c \<Rightarrow> c
                          | None \<Rightarrow> \<lparr>state = fst k, year = fst (snd k), tax_type = snd (snd k),
                                     state_tax_revenue = 0, local_tax_revenue = 0\<rparr>)
           in AList.update k
                (if censusRowGovType row = ''002''
                 then current\<lparr>state_tax_revenue := state_tax_revenue current + censusRowAmount row\<rparr>
                 else current\<lparr>local_tax_revenue := local_tax_revenue current + censusRowAmount row\<rparr>)
                bucket))"
  unfolding censusRow_def censusRowKey_def censusRowGovType_def censusRowAmount_def Let_def
  by (auto split: option.splits)

lemma censusBucket_snoc:
  "censusBucket config (rows @ [row]) = censusRow config row (censusBucket config rows)"
  by (simp add: censusBucket_def)

lemma censusBucket_distinct: "distinct (map fst (censusBucket config rows))"
proof (induction rows rule: rev_induct)
  case Nil
  then show ?case by (simp add: censusBucket_def)
next
  case (snoc row rows)
  then show ?case
    by (simp add: censusBucket_snoc censusRow_alt distinct_update Let_def split: option.splits)
qed

lemma censusBucket_lookup:
  "map_of (censusBucket config rows) k =
     (if \<exists>r \<in> set rows. censusRowKey config r = Some k
      then Some \<lparr>state = fst k, year = fst (snd k), tax_type = snd (snd k),
                 state_tax_revenue = bucketSum config rows ''002'' k,
                 local_tax_revenue = bucketSum config rows ''003'' k\<rparr>
      else None)"
proof (induction rows rule: rev_induct)
  case Nil
  then show ?case by (simp add: censusBucket_def)
next
  case (snoc row rows)
  show ?case
  proof (cases "censusRowKey config row")
    case None
    with snoc show ?thesis
      by (simp add: censusBucket_snoc censusRow_alt bucketSum_def)
  next
    case (Some k')
    note gov = censusRowKey_govType [OF Some]
    show ?thesis
    proof (cases "k' = k")
      case False
      with Some snoc show ?thesis
        by (simp add: censusBucket_snoc censusRow_alt bucketSum_def update_conv' Let_def)
    next
      case True
      show ?thesis
      proof (cases "\<exists>r \<in> set rows. censusRowKey config r = Some k")
        case ex: True
        with snoc Some True gov show ?thesis
          by (auto simp: censusBucket_snoc censusRow_alt bucketSum_def update_conv' Let_def)
      next
        case nex: False
        then have "filter (\<lambda>r. censusRowKey config r = Some k \<and> censusRowGovType r = g) rows = []" for g
          by (auto simp: filter_empty_conv)
        with snoc Some True gov nex show ?thesis
          by (auto simp: censusBucket_snoc censusRow_alt bucketSum_def update_conv' Let_def)
      qed
    qed
  qed
qed

lemma censusBucket_values:
  assumes "b \<in> snd ` set (censusBucket config rows)"
  shows "state_tax_revenue b = bucketSum config rows ''002'' (state b, year b, tax_type b)
       \<and> local_tax_revenue b = bucketSum config rows ''003'' (state b, year b, tax_type b)"
proof -
  from assms obtain k where "(k, b) \<in> set (censusBucket config rows)" by auto
  then have "map_of (censusBucket config rows) k = Some b"
    using censusBucket_distinct by (simp add: map_of_eq_Some_iff)
  then have b: "b = \<lparr>state = fst k, year = fst (snd k), tax_type = snd (snd k),
                 state_tax_revenue = bucketSum config rows ''002'' k,
                 local_tax_revenue = bucketSum config rows ''003'' k\<rparr>"
    by (auto simp: censusBucket_lookup split: if_splits)
  show ?thesis
    by (subst (1 2 3 4 5 6 7 8) b) simp
qed

subsection \<open>Further literals\<close>

lemma number_2023: "stringToNumber ''2023'' = Fin 2023"
  by (simp add: num_defs)

lemmas census_eval2 = census_eval number_2023





subsection \<open>The worked example of the statistical-code shape\<close>

text \<open>
  Claim C9, as the code has it. The two statistical-code rows for Texas, 2023, code
  \<^verbatim>\<open>LF0009\<close>, one of government type \<^verbatim>\<open>002\<close> with amount \<^verbatim>\<open>"1,000"\<close> and one of
  type \<^verbatim>\<open>003\<close> with amount \<^verbatim>\<open>"500"\<close>, normalize to exactly one bucket: state Texas,
  year 2023, state-level amount 1000, local-level amount 500, and the tax category that
  \<open>CENSUS_TAX_CODE_TO_TYPE\<close> gives for the code, which is the label \<^verbatim>\<open>Property tax\<close>.
\<close>

theorem census_texas_example:
  "normalizeTaxFromCensusApiRows
     [[(''state'', JStr ''Texas''), (''year'', JNum (Fin 2023)), (''AGG_DESC'', JStr ''LF0009''),
       (''GOVTYPE'', JStr ''002''), (''AMOUNT'', JStr ''1,000'')],
      [(''state'', JStr ''Texas''), (''year'', JNum (Fin 2023)), (''AGG_DESC'', JStr ''LF0009''),
       (''GOVTYPE'', JStr ''003''), (''AMOUNT'', JStr ''500'')]] config
   = [\<lparr>state = ''Texas'', year = Fin 2023, tax_type = ''Property tax'',
       state_tax_revenue = 1000, local_tax_revenue = 500\<rparr>]"
  by (simp add: census_eval2)

text \<open>The category of that bucket is not the string \<^verbatim>\<open>property\<close>: the claim as stated,
  with that category, does not hold of the function.\<close>

theorem census_texas_category_counterexample:
  "normalizeTaxFromCensusApiRows
     [[(''state'', JStr ''Texas''), (''year'', JNum (Fin 2023)), (''AGG_DESC'', JStr ''LF0009''),
       (''GOVTYPE'', JStr ''002''), (''AMOUNT'', JStr ''1,000'')],
      [(''state'', JStr ''Texas''), (''year'', JNum (Fin 2023)), (''AGG_DESC'', JStr ''LF0009''),
       (''GOVTYPE'', JStr ''003''), (''AMOUNT'', JStr ''500'')]] sampleNormalizeConfig
   \<noteq> [\<lparr>state = ''Texas'', year = Fin 2023, tax_type = ''property'',
       state_tax_revenue = 1000, local_tax_revenue = 500\<rparr>]"
  by (simp add: census_eval2)

subsection \<open>Which buckets are kept\<close>

lemma census_kept_iff:
  "b \<in> set (normalizeTaxFromCensusApiRows rows config) \<longleftrightarrow>
     b \<in> snd ` set (censusBucket config rows) \<and> (0 < state_tax_revenue b \<or> 0 < local_tax_revenue b)"
  by (auto simp: normalizeTaxFromCensusApiRows_def)

text \<open>
  Claim C2, as the code has it. After accumulation the two amounts of a bucket are the sums
  of the amounts of its rows of government type 002 and 003, and the bucket is kept exactly
  when its state-level amount or its local-level amount is strictly positive. When no source
  amount is negative this is the same as its combined amount being different from zero.
\<close>

theorem census_bucket_kept:
  assumes "b \<in> snd ` set (censusBucket config rows)"
  shows "state_tax_revenue b = bucketSum config rows ''002'' (state b, year b, tax_type b)
       \<and> local_tax_revenue b = bucketSum config rows ''003'' (state b, year b, tax_type b)
       \<and> (b \<in> set (normalizeTaxFromCensusApiRows rows config) \<longleftrightarrow>
            0 < state_tax_revenue b \<or> 0 < local_tax_revenue b)
       \<and> ((\<forall>row \<in> set rows. 0 \<le> finVal (parseNumeric (getProp row ''AMOUNT''))) \<longrightarrow>
            (b \<in> set (normalizeTaxFromCensusApiRows rows config) \<longleftrightarrow>
               state_tax_revenue b + local_tax_revenue b \<noteq> 0))"
proof -
  have kept: "b \<in> set (normalizeTaxFromCensusApiRows rows config) \<longleftrightarrow>
            0 < state_tax_revenue b \<or> 0 < local_tax_revenue b"
    using assms by (simp add: census_kept_iff)
  have "b \<in> set (normalizeTaxFromCensusApiRows rows config) \<longleftrightarrow>
               state_tax_revenue b + local_tax_revenue b \<noteq> 0"
    if "\<forall>row \<in> set rows. 0 \<le> finVal (parseNumeric (getProp row ''AMOUNT''))"
  proof -
    from that have "0 \<le> state_tax_revenue b \<and> 0 \<le> local_tax_revenue b"
      using censusBucket_nonneg [of rows config] assms by auto
    then have "(0 < state_tax_revenue b \<or> 0 < local_tax_revenue b) \<longleftrightarrow>
        state_tax_revenue b + local_tax_revenue b \<noteq> 0"
      by linarith
    with kept show ?thesis by simp
  qed
  with kept censusBucket_values [OF assms] show ?thesis by blast
qed

theorem census_bucket_kept_witness:
  "\<lparr>state = ''Texas'', year = Fin 2023, tax_type = ''Property tax'',
     state_tax_revenue = 1000, local_tax_revenue = 500\<rparr>
     \<in> set (normalizeTaxFromCensusApiRows
          [censusSampleRow ''Texas'' ''2023'' ''LF0009'' ''002'' ''1,000'',
           censusSampleRow ''Texas'' ''2023'' ''LF0009'' ''003'' ''500''] sampleNormalizeConfig)
   \<and> state_tax_revenue \<lparr>state = ''Texas'', year = Fin 2023, tax_type = ''Property tax'',
     state_tax_revenue = 1000, local_tax_revenue = 500\<rparr>
     + local_tax_revenue \<lparr>state = ''Texas'', year = Fin 2023, tax_type = ''Property tax'',
     state_tax_revenue = 1000, local_tax_revenue = 500\<rparr> \<noteq> (0 :: rat)"
proof -
  let ?rows = "[censusSampleRow ''Texas'' ''2023'' ''LF0009'' ''002'' ''1,000'',
           censusSampleRow ''Texas'' ''2023'' ''LF0009'' ''003'' ''500'']"
  let ?b = "\<lparr>state = ''Texas'', year = Fin 2023, tax_type = ''Property tax'',
     state_tax_revenue = 1000 :: rat, local_tax_revenue = 500 :: rat\<rparr>"
  have bucket: "?b \<in> snd ` set (censusBucket sampleNormalizeConfig ?rows)"
    by (simp add: census_eval2)
  have amounts: "\<forall>row \<in> set ?rows. 0 \<le> finVal (parseNumeric (getProp row ''AMOUNT''))"
    by (simp add: census_eval2)
  from census_bucket_kept [OF bucket] amounts
  have "?b \<in> set (normalizeTaxFromCensusApiRows ?rows sampleNormalizeConfig) \<longleftrightarrow>
      state_tax_revenue ?b + local_tax_revenue ?b \<noteq> 0"
    by blast
  then show ?thesis by simp
qed

text \<open>
  With a negative source amount (the accounting form \<^verbatim>\<open>(500)\<close>) the two conditions
  differ. A bucket whose combined amount is -500 is discarded, and a bucket whose amounts
  500 and -500 cancel is kept.
\<close>

theorem census_bucket_zero_sum_counterexample:
  "\<lparr>state = ''Texas'', year = Fin 2023, tax_type = ''Property tax'',
     state_tax_revenue = - 500, local_tax_revenue = 0\<rparr>
     \<in> snd ` set (censusBucket sampleNormalizeConfig
          [censusSampleRow ''Texas'' ''2023'' ''LF0009'' ''002'' ''(500)''])
   \<and> state_tax_revenue \<lparr>state = ''Texas'', year = Fin 2023, tax_type = ''Property tax'',
     state_tax_revenue = - 500, local_tax_revenue = 0\<rparr>
     + local_tax_revenue \<lparr>state = ''Texas'', year = Fin 2023, tax_type = ''Property tax'',
     state_tax_revenue = - 500, local_tax_revenue = 0\<rparr> \<noteq> (0 :: rat)
   \<and> normalizeTaxFromCensusApiRows
          [censusSampleRow ''Texas'' ''2023'' ''LF0009'' ''002'' ''(500)''] sampleNormalizeConfig = []
   \<and> normalizeTaxFromCensusApiRows
          [censusSampleRow ''Texas'' ''2023'' ''LF0009'' ''002'' ''500'',
           censusSampleRow ''Texas'' ''2023'' ''LF0009'' ''003'' ''(500)''] sampleNormalizeConfig
      = [\<lparr>state = ''Texas'', year = Fin 2023, tax_type = ''Property tax'',
          state_tax_revenue = 500, local_tax_revenue = - 500\<rparr>]"
  by (simp add: census_eval2)

subsection \<open>Rows of unknown states and of other years\<close>








section \<open>Properties of the source row reader\<close>















section \<open>Properties of the ingestion\<close>

subsection \<open>The year filter\<close>

lemma strictNeq_finite: "isFinite a \<Longrightarrow> strictNeq a b \<longleftrightarrow> a \<noteq> b"
  by (cases a) (auto simp: strictNeq_def)

lemma yearExcluded_iff:
  "yearExcluded config cell \<longleftrightarrow>
     isFinite (toNumberJs cell) \<and> toNumberJs cell \<noteq> cfg_year config"
  by (auto simp: yearExcluded_def Let_def strictNeq_finite)

lemma yearExcluded_target:
  "isFinite (cfg_year config) \<Longrightarrow> \<not> yearExcluded config (JNum (cfg_year config))"
  by (simp add: yearExcluded_iff)









subsection \<open>Determinism\<close>


subsection \<open>The population resolver\<close>

lemma populationRow_alt:
  "populationRow config row entries =
     (if popRowSurvives config row
      then AList.update (popRowState config row) (popRowValue config row) entries
      else entries)"
  by (auto simp: populationRow_def popRowSurvives_def popRowState_def popRowValue_def Let_def)

lemma populationByState_snoc:
  "populationByState config (rows @ [row]) = populationRow config row (populationByState config rows)"
  by (simp add: populationByState_def)

lemma populationByState_lookup:
  "map_of (populationByState config rows) s =
     (let rs = filter (\<lambda>r. popRowSurvives config r \<and> popRowState config r = s) rows
      in if rs = [] then None else Some (popRowValue config (last rs)))"
proof (induction rows rule: rev_induct)
  case Nil
  then show ?case by (simp add: populationByState_def)
next
  case (snoc row rows)
  then show ?case
    by (simp add: populationByState_snoc populationRow_alt update_conv' Let_def)
qed

lemma populationByState_keys:
  "map fst (populationByState config rows) =
     rev (remdups (rev (map (popRowState config) (filter (popRowSurvives config) rows))))"
proof (induction rows rule: rev_induct)
  case Nil
  then show ?case by (simp add: populationByState_def)
next
  case (snoc row rows)
  then show ?case
    by (simp add: populationByState_snoc populationRow_alt update_keys)
qed

lemma populationByState_distinct: "distinct (map fst (populationByState config rows))"
  by (simp add: populationByState_keys)

lemma populationByState_empty_iff:
  "populationByState config rows = [] \<longleftrightarrow> filter (popRowSurvives config) rows = []"
proof -
  have "populationByState config rows = [] \<longleftrightarrow> map fst (populationByState config rows) = []"
    by simp
  also have "\<dots> \<longleftrightarrow> filter (popRowSurvives config) rows = []"
    unfolding populationByState_keys by (simp add: remdups_eq_nil_iff)
  finally show ?thesis .
qed


lemma rankedEntries_sorted: "sorted_wrt (\<lambda>a b. snd b \<le> snd a) (rankedEntries entries)"
proof -
  have "sorted (map (\<lambda>e. - snd e) (rankedEntries entries))"
    unfolding rankedEntries_def by (rule sorted_sort_key)
  then show ?thesis by (simp add: sorted_map)
qed

lemma rankedEntries_mset: "mset (rankedEntries entries) = mset entries"
  by (simp add: rankedEntries_def)

lemma rankedEntries_stable:
  "filter (\<lambda>e. snd e = p) (rankedEntries entries) = filter (\<lambda>e. snd e = p) entries"
proof -
  have "filter (\<lambda>e. - snd e = - p) (sort_key (\<lambda>e. - snd e) entries)
      = filter (\<lambda>e. - snd e = - p) entries"
    by (rule sort_key_stable)
  then show ?thesis by (simp add: rankedEntries_def)
qed

lemma topStates_take:
  "0 \<le> topNStates config \<Longrightarrow>
     topStates config entries = map fst (take (nat (topNStates config)) (rankedEntries entries))"
  by (simp add: topStates_def slice0_def)

lemma run_NoPopulationRows_iff:
  assumes "readCsv papa taxFile = Inr taxRows" and "readCsv papa populationFile = Inr rows"
  shows "run papa config taxFile populationFile now = Inl NoPopulationRows \<longleftrightarrow>
           filter (popRowSurvives config) rows = []"
  using assms by (simp add: run_def Let_def populationByState_empty_iff)

text \<open>
  Claim C5. For each state the population resolver keeps the population of the last row of
  that state that survives the filter (target year, roster, strictly positive population);
  the states stand in the order of their first surviving row. They are ranked by descending
  population, states of equal population keeping that order, and the first N are selected.
  When the population file is read but no row survives, the run fails with the error
  \<open>NoPopulationRows\<close>, and only then.
\<close>

theorem population_resolver:
  "map_of (populationByState config rows) s =
     (let rs = filter (\<lambda>r. popRowSurvives config r \<and> popRowState config r = s) rows
      in if rs = [] then None else Some (popRowValue config (last rs)))
   \<and> map fst (populationByState config rows) =
       rev (remdups (rev (map (popRowState config) (filter (popRowSurvives config) rows))))
   \<and> sorted_wrt (\<lambda>a b. snd b \<le> snd a) (rankedEntries entries)
   \<and> mset (rankedEntries entries) = mset entries
   \<and> filter (\<lambda>e. snd e = p) (rankedEntries entries) = filter (\<lambda>e. snd e = p) entries
   \<and> (0 \<le> topNStates config \<longrightarrow>
        topStates config entries = map fst (take (nat (topNStates config)) (rankedEntries entries)))
   \<and> (readCsv papa taxFile = Inr taxRows \<and> readCsv papa populationFile = Inr rows \<longrightarrow>
        (run papa config taxFile populationFile now = Inl NoPopulationRows \<longleftrightarrow>
           filter (popRowSurvives config) rows = []))"
  using populationByState_lookup [of config rows s] populationByState_keys [of config rows]
    rankedEntries_sorted [of entries] rankedEntries_mset [of entries]
    rankedEntries_stable [of p entries] topStates_take [of config entries]
    run_NoPopulationRows_iff [of papa taxFile taxRows populationFile rows config now]
  by blast

lemma stringToNumber_literals:
  "stringToNumber ''2023'' = Fin 2023"
  "stringToNumber ''2022'' = Fin 2022"
  "stringToNumber ''n/a'' = NaN"
  by (simp_all add: num_defs)

lemma parseNumeric_literals:
  "parseNumeric (JStr ''50'') = Fin 50"
  "parseNumeric (JStr ''100'') = Fin 100"
  "parseNumeric (JStr ''200'') = Fin 200"
  "parseNumeric (JStr ''300'') = Fin 300"
  "parseNumeric (JStr ''900'') = Fin 900"
  "parseNumeric (JStr ''999'') = Fin 999"
  "parseNumeric (JStr ''2.5'') = Fin (5 / 2)"
  "parseNumeric (JStr ''0'') = Fin 0"
  "parseNumeric (JStr ''2'') = Fin 2"
  "parseNumeric (JStr ''10'') = Fin 10"
  "parseNumeric (JStr ''5'') = Fin 5"
  by (simp_all add: num_defs)

lemma normalizeState_literals:
  "normalizeState (JStr ''Texas'') = ''Texas''"
  "normalizeState (JStr ''Ohio'') = ''Ohio''"
  "normalizeState (JStr ''Utah'') = ''Utah''"
  "normalizeState (JStr ''Iowa'') = ''Iowa''"
  "normalizeState (JStr ''Puerto Rico'') = ''Puerto Rico''"
  by (simp_all add: normalizeState_def trim_def isWhiteSpace_def)

lemma roster_literals:
  "''Texas'' \<in> set VALID_STATES" "''Ohio'' \<in> set VALID_STATES" "''Utah'' \<in> set VALID_STATES"
  "''Iowa'' \<in> set VALID_STATES" "''Puerto Rico'' \<notin> set VALID_STATES"
  by (simp_all add: VALID_STATES_def)

lemma taxType_literals:
  "trim ''Property'' = ''Property''" "trim ''Sales'' = ''Sales''"
  "toTaxTypeKey (JStr ''Property'') = ''property''"
  "toTaxTypeKey (JStr ''Sales'') = ''sales''"
  by (simp_all add: toTaxTypeKey_def trim_def isWhiteSpace_def toLowerAscii_def isKeyChar_def
      isDigit_def stripUnderscores_def)

lemma floor_numeral_divide:
  "\<lfloor>(numeral a :: rat) / numeral b\<rfloor> = numeral a div numeral b"
  "\<lfloor>(1 :: rat) / numeral b\<rfloor> = 1 div numeral b"
  "\<lfloor>- ((numeral a :: rat) / numeral b)\<rfloor> = - numeral a div numeral b"
  using floor_divide_of_int_eq [where ?'a = rat, of "numeral a" "numeral b"]
    floor_divide_of_int_eq [where ?'a = rat, of 1 "numeral b"]
    floor_divide_of_int_eq [where ?'a = rat, of "- numeral a" "numeral b"]
  by simp_all

lemmas ingest_eval = floor_numeral_divide populationByState_def populationRow_def yearExcluded_def strictNeq_def
  sampleIngestConfig_def populationSampleRow_def aliasedSampleRow_def getProp_def
  stringToNumber_literals parseNumeric_literals normalizeState_literals roster_literals
  taxType_literals taxTypeKeyOf_def taxLoop_def taxRowStep_def seeTaxType_def existingAggregate_def addTax_def readBreakdown_def
  writeBreakdown_def OBJECT_PROTOTYPE_KEYS_def topStates_def rankedEntries_def
  slice0_def finalStates_def finalState_def mathRound_def toFixed2_def run_def readCsv_def
  tableParser_def Let_def

lemma sample_populationByState:
  "populationByState sampleIngestConfig samplePopulationRows
   = [(''Texas'', 100), (''Ohio'', 300), (''Utah'', 200)]"
  by (simp add: samplePopulationRows_def ingest_eval)

lemma sample_topStates:
  "topStates sampleIngestConfig [(''Texas'', 100), (''Ohio'', 300), (''Utah'', 200)] = [''Ohio'', ''Utah'']"
  by (simp add: ingest_eval)

lemma sample_survivors:
  "popRowState sampleIngestConfig (populationSampleRow name yr pop) = normalizeState (JStr name)"
  "popRowValue sampleIngestConfig (populationSampleRow name yr pop) = finVal (parseNumeric (JStr pop))"
  "popRowSurvives sampleIngestConfig (populationSampleRow name yr pop) \<longleftrightarrow>
     \<not> (isFinite (stringToNumber yr) \<and> stringToNumber yr \<noteq> Fin 2023)
     \<and> normalizeState (JStr name) \<noteq> []
     \<and> normalizeState (JStr name) \<in> set VALID_STATES
     \<and> 0 < finVal (parseNumeric (JStr pop))"
  by (simp_all add: popRowSurvives_def popRowState_def popRowValue_def yearExcluded_iff
      sampleIngestConfig_def populationSampleRow_def getProp_def)

lemmas survivors_eval = sample_survivors samplePopulationRows_def stringToNumber_literals
  parseNumeric_literals normalizeState_literals roster_literals Let_def

theorem population_resolver_witness:
  "map_of (populationByState sampleIngestConfig samplePopulationRows) ''Texas'' = Some 100
   \<and> topStates sampleIngestConfig [(''Texas'', 100), (''Ohio'', 300), (''Utah'', 200)]
     = [''Ohio'', ''Utah'']
   \<and> run (tableParser [(''tax'', []), (''pop'', [populationSampleRow ''Puerto Rico'' ''2023'' ''900''])])
       sampleIngestConfig (Some ''tax'') (Some ''pop'') ''now'' = Inl NoPopulationRows"
proof -
  let ?papa = "tableParser [(''tax'', []), (''pop'', [populationSampleRow ''Puerto Rico'' ''2023'' ''900''])]"
  have csv: "readCsv ?papa (Some ''tax'') = Inr []"
    "readCsv ?papa (Some ''pop'') = Inr [populationSampleRow ''Puerto Rico'' ''2023'' ''900'']"
    by (simp_all add: readCsv_def tableParser_def)
  have n: "0 \<le> topNStates sampleIngestConfig" "nat (topNStates sampleIngestConfig) = 2"
    by (simp_all add: sampleIngestConfig_def)
  have ranked: "rankedEntries [(''Texas'', 100), (''Ohio'', 300), (''Utah'', 200)]
      = [(''Ohio'', 300), (''Utah'', 200), (''Texas'', 100 :: rat)]"
    by (simp add: rankedEntries_def)
  note thm1 = population_resolver [where config = sampleIngestConfig
      and rows = samplePopulationRows and s = "''Texas''"
      and entries = "[(''Texas'', 100), (''Ohio'', 300), (''Utah'', 200)]"]
  note thm2 = population_resolver [where config = sampleIngestConfig
      and rows = "[populationSampleRow ''Puerto Rico'' ''2023'' ''900'']"
      and papa = ?papa and taxFile = "Some ''tax''" and taxRows = "[]"
      and populationFile = "Some ''pop''" and now = "''now''"]
  from thm1 have "map_of (populationByState sampleIngestConfig samplePopulationRows) ''Texas'' = Some 100"
    by (simp add: survivors_eval)
  moreover from thm1 n have "topStates sampleIngestConfig [(''Texas'', 100), (''Ohio'', 300), (''Utah'', 200)]
     = [''Ohio'', ''Utah'']"
    by (simp add: ranked)
  moreover from thm2 csv have "run ?papa sampleIngestConfig (Some ''tax'') (Some ''pop'') ''now''
      = Inl NoPopulationRows"
    by (simp add: survivors_eval)
  ultimately show ?thesis by blast
qed


text \<open>The row with the unreadable year does set the population of its state.\<close>

lemma unparsed_year_row_is_used:
  "populationByState sampleIngestConfig [populationSampleRow ''Texas'' ''n/a'' ''100'']
     = [(''Texas'', 100)]"
  by (simp add: ingest_eval)

subsection \<open>The aggregation loop\<close>

lemma taxLoop_snoc:
  "taxLoop config byState selected (rows @ [row])
   = taxRowStep config byState selected row (taxLoop config byState selected rows)"
  by (simp add: taxLoop_def)

lemma taxLoop_Nil: "stateAggregation (taxLoop config byState selected []) = []"
  by (simp add: taxLoop_def)

lemma stateAggregation_seeTaxType [simp]:
  "stateAggregation (seeTaxType k s) = stateAggregation s"
  by (simp add: seeTaxType_def)

lemma taxRowStep_aggregation:
  "stateAggregation (taxRowStep config byState selected row s) =
     (if taxRowCounts config selected row
      then AList.update (taxRowState config row)
             (addTax (taxTypeKeyOf config (taxRowRawType config row)) (taxRowTotal config row)
                (existingAggregate byState (stateAggregation s) (taxRowState config row)))
             (stateAggregation s)
      else stateAggregation s)"
  by (simp add: taxRowStep_def taxRowCounts_def taxRowState_def taxRowRawType_def taxRowTotal_def
      Let_def)

lemma aggregation_keys:
  "fst ` set (stateAggregation (taxLoop config byState selected rows))
   = taxRowState config ` {r \<in> set rows. taxRowCounts config selected r}"
proof (induction rows rule: rev_induct)
  case Nil
  then show ?case by (simp add: taxLoop_Nil)
next
  case (snoc row rows)
  then show ?case
    by (auto simp: taxLoop_snoc taxRowStep_aggregation dom_update)
qed

lemma aggregation_distinct:
  "distinct (map fst (stateAggregation (taxLoop config byState selected rows)))"
proof (induction rows rule: rev_induct)
  case Nil
  then show ?case by (simp add: taxLoop_Nil)
next
  case (snoc row rows)
  then show ?case
    by (simp add: taxLoop_snoc taxRowStep_aggregation distinct_update)
qed


lemma addTax_fields [simp]:
  "aggState (addTax k t e) = aggState e"
  "aggPopulation (addTax k t e) = aggPopulation e"
  "aggTotalRevenue (addTax k t e) = aggTotalRevenue e + t"
  by (simp_all add: addTax_def)









subsection \<open>The selected states\<close>



lemma topStates_distinct:
  assumes "distinct (map fst entries)"
  shows "distinct (topStates config entries)"
proof -
  have "mset (map fst (rankedEntries entries)) = mset (map fst entries)"
    by (simp add: rankedEntries_def)
  with assms have "distinct (map fst (rankedEntries entries))"
    by (metis mset_eq_imp_distinct_iff)
  then show ?thesis
    by (simp add: topStates_def slice0_def take_map [symmetric])
qed

lemma topStates_length:
  "0 \<le> topNStates config \<Longrightarrow>
     length (topStates config entries) = min (nat (topNStates config)) (length entries)"
  by (simp add: topStates_def slice0_def rankedEntries_def min.commute)

lemma populationByState_length:
  "length (populationByState config rows)
   = card (popRowState config ` {r \<in> set rows. popRowSurvives config r})"
proof -
  have "length (populationByState config rows) = length (map fst (populationByState config rows))"
    by simp
  also have "\<dots> = card (set (map (popRowState config) (filter (popRowSurvives config) rows)))"
    unfolding populationByState_keys by (simp add: length_remdups_card_conv)
  also have "set (map (popRowState config) (filter (popRowSurvives config) rows))
      = popRowState config ` {r \<in> set rows. popRowSurvives config r}"
    by auto
  finally show ?thesis .
qed


subsection \<open>Rounding\<close>



subsection \<open>The states of the payload\<close>


lemma finalStates_length: "length (finalStates aggregation) = length aggregation"
  by (simp add: finalStates_def)

lemma run_Inr_states:
  assumes "run papa config taxFile populationFile now = Inr payload"
    and "readCsv papa taxFile = Inr taxRows" and "readCsv papa populationFile = Inr populationRows"
  shows "states payload =
      finalStates (stateAggregation (taxLoop config (populationByState config populationRows)
        (topStates config (populationByState config populationRows)) taxRows))"
  using assms by (auto simp: run_def Let_def split: if_splits)


subsection \<open>Two evaluated runs\<close>

lemma sample_taxRow:
  "taxRowStep sampleIngestConfig byState selected (aliasedSampleRow name ''2023'' taxType a b) s =
     (if normalizeState (JStr name) \<notin> set selected \<or> trim taxType = [] then s
      else (seeTaxType (toTaxTypeKey (JStr (trim taxType))) s)
             \<lparr>stateAggregation :=
                AList.update (normalizeState (JStr name))
                  (addTax (toTaxTypeKey (JStr (trim taxType)))
                     (finVal (parseNumeric (JStr a)) + finVal (parseNumeric (JStr b)))
                     (existingAggregate byState (stateAggregation s) (normalizeState (JStr name))))
                  (stateAggregation s)\<rparr>)"
  by (simp add: taxRowStep_def yearExcluded_iff sampleIngestConfig_def aliasedSampleRow_def
      getProp_def stringToNumber_literals taxTypeKeyOf_def Let_def)

lemmas loop_eval = taxLoop_def sample_taxRow normalizeState_literals taxType_literals
  parseNumeric_literals seeTaxType_def existingAggregate_def addTax_def readBreakdown_def
  writeBreakdown_def OBJECT_PROTOTYPE_KEYS_def

lemma sample_taxLoop:
  "taxLoop sampleIngestConfig [(''Texas'', 100), (''Ohio'', 300), (''Utah'', 200)] [''Ohio'', ''Utah'']
     sampleTaxRows
   = \<lparr>stateAggregation =
        [(''Ohio'', \<lparr>aggState = ''Ohio'', aggPopulation = 300, aggTotalRevenue = 25 / 2,
            aggBreakdown = [(''property'', Amount (5 / 2)), (''sales'', Amount 10)]\<rparr>)],
      taxTypeOrder = [''property'', ''sales''],
      taxTypeSeen = [''property'', ''sales'']\<rparr>"
  by (simp add: sampleTaxRows_def loop_eval)


lemma small_populationByState:
  "populationByState sampleIngestConfig [populationSampleRow ''Texas'' ''2023'' ''2''] = [(''Texas'', 2)]"
  by (simp add: ingest_eval)

lemma small_topStates: "topStates sampleIngestConfig [(''Texas'', 2)] = [''Texas'']"
  by (simp add: ingest_eval)

lemma final_eval:
  "finalStates [(''Ohio'', \<lparr>aggState = ''Ohio'', aggPopulation = 300, aggTotalRevenue = 25 / 2,
       aggBreakdown = [(''property'', Amount (5 / 2)), (''sales'', Amount 10)]\<rparr>)]
   = [\<lparr>outState = ''Ohio'', population = 300, totalRevenue = 13, perCapitaTotal = 1 / 25,
       breakdown = [(''property'', Amount (5 / 2)), (''sales'', Amount 10)]\<rparr>]"
  "finalStates [(''Texas'', \<lparr>aggState = ''Texas'', aggPopulation = 2, aggTotalRevenue = 5 / 2,
       aggBreakdown = [(''property'', Amount (5 / 2))]\<rparr>)]
   = [\<lparr>outState = ''Texas'', population = 2, totalRevenue = 3, perCapitaTotal = 5 / 4,
       breakdown = [(''property'', Amount (5 / 2))]\<rparr>]"
  by (simp_all add: finalStates_def finalState_def mathRound_def toFixed2_def floor_numeral_divide)

lemma sample_config_fields:
  "cfg_year sampleIngestConfig = Fin 2023" "topNStates sampleIngestConfig = 2"
  "taxTypeLabels sampleIngestConfig = []"
  by (simp_all add: sampleIngestConfig_def)

lemma sample_run:
  "run sampleParser sampleIngestConfig (Some ''tax'') (Some ''pop'') ''2026-01-01T00:00:00.000Z'' =
     Inr \<lparr>metadata = \<lparr>metaYear = Fin 2023, metaCurrency = ''USD'', metaScope = ''state+local'',
                 metaTopN = 2, metaNotes = [''Nominal dollars.'',
                 ''Top states selected by population for the same year.''],
                 generatedAt = ''2026-01-01T00:00:00.000Z''\<rparr>,
          taxTypes = [(''property'', ''property''), (''sales'', ''sales'')],
          states = [\<lparr>outState = ''Ohio'', population = 300, totalRevenue = 13,
                     perCapitaTotal = 1 / 25,
                     breakdown = [(''property'', Amount (5 / 2)), (''sales'', Amount 10)]\<rparr>]\<rparr>"
  by (simp add: run_def readCsv_def sampleParser_def tableParser_def sample_populationByState
      sample_topStates sample_taxLoop final_eval sample_config_fields Let_def)


subsection \<open>Totals and per-capita values\<close>






text \<open>
  A tax type whose key names an inherited property is the case the theorem leaves out. The
  key of the tax type \<^verbatim>\<open>Constructor\<close> is \<^verbatim>\<open>constructor\<close>; the first read of that
  property of the breakdown gives a function, and the breakdown value becomes a string
  while \<open>totalRevenue\<close> still counts the amount.
\<close>

lemma inherited_key_literals:
  "trim ''Constructor'' = ''Constructor''"
  "toTaxTypeKey (JStr ''Constructor'') = ''constructor''"
  by (simp_all add: toTaxTypeKey_def trim_def isWhiteSpace_def toLowerAscii_def isKeyChar_def
      isDigit_def stripUnderscores_def)

lemma inherited_key_run:
  "run (tableParser [(''tax'', [aliasedSampleRow ''Texas'' ''2023'' ''Constructor'' ''2.5'' ''0'']),
                     (''pop'', [populationSampleRow ''Texas'' ''2023'' ''2''])])
     sampleIngestConfig (Some ''tax'') (Some ''pop'') ''2026-01-01T00:00:00.000Z'' =
     Inr \<lparr>metadata = \<lparr>metaYear = Fin 2023, metaCurrency = ''USD'', metaScope = ''state+local'',
                 metaTopN = 2, metaNotes = [''Nominal dollars.'',
                 ''Top states selected by population for the same year.''],
                 generatedAt = ''2026-01-01T00:00:00.000Z''\<rparr>,
          taxTypes = [(''constructor'', ''constructor'')],
          states = [\<lparr>outState = ''Texas'', population = 2, totalRevenue = 3,
                     perCapitaTotal = 5 / 4,
                     breakdown = [(''constructor'', NotAmount)]\<rparr>]\<rparr>"
proof -
  have loop: "taxLoop sampleIngestConfig [(''Texas'', 2)] [''Texas'']
       [aliasedSampleRow ''Texas'' ''2023'' ''Constructor'' ''2.5'' ''0'']
     = \<lparr>stateAggregation =
          [(''Texas'', \<lparr>aggState = ''Texas'', aggPopulation = 2, aggTotalRevenue = 5 / 2,
              aggBreakdown = [(''constructor'', NotAmount)]\<rparr>)],
        taxTypeOrder = [''constructor''],
        taxTypeSeen = [''constructor'']\<rparr>"
    by (simp add: loop_eval inherited_key_literals)
  have final: "finalStates [(''Texas'', \<lparr>aggState = ''Texas'', aggPopulation = 2,
         aggTotalRevenue = 5 / 2, aggBreakdown = [(''constructor'', NotAmount)]\<rparr>)]
     = [\<lparr>outState = ''Texas'', population = 2, totalRevenue = 3, perCapitaTotal = 5 / 4,
         breakdown = [(''constructor'', NotAmount)]\<rparr>]"
    by (simp add: finalStates_def finalState_def mathRound_def toFixed2_def floor_numeral_divide)
  show ?thesis
    by (simp add: run_def readCsv_def tableParser_def small_populationByState small_topStates
        loop final sample_config_fields Let_def)
qed

subsection \<open>The number of states in the payload\<close>

lemma counted_states:
  assumes "distinct selected"
  shows "length (filter (\<lambda>st. \<exists>r \<in> set taxRows. taxRowCounts config selected r \<and> taxRowState config r = st)
            selected)
       = card (taxRowState config ` {r \<in> set taxRows. taxRowCounts config selected r})"
proof -
  let ?P = "\<lambda>st. \<exists>r \<in> set taxRows. taxRowCounts config selected r \<and> taxRowState config r = st"
  let ?A = "taxRowState config ` {r \<in> set taxRows. taxRowCounts config selected r}"
  have "set (filter ?P selected) = ?A"
  proof (intro set_eqI iffI)
    fix st assume "st \<in> set (filter ?P selected)"
    then obtain r where "r \<in> set taxRows" "taxRowCounts config selected r" "taxRowState config r = st"
      by auto
    then show "st \<in> ?A" by blast
  next
    fix st assume "st \<in> ?A"
    then obtain r where r: "r \<in> set taxRows" "taxRowCounts config selected r" "taxRowState config r = st"
      by blast
    from r(2) have "taxRowState config r \<in> set selected" by (simp add: taxRowCounts_def)
    with r show "st \<in> set (filter ?P selected)" by auto
  qed
  moreover have "card (set (filter ?P selected)) = length (filter ?P selected)"
    using assms by (intro distinct_card) simp
  ultimately show ?thesis by simp
qed

lemma aggregation_length:
  "length (stateAggregation (taxLoop config byState selected taxRows))
   = card (taxRowState config ` {r \<in> set taxRows. taxRowCounts config selected r})"
proof -
  let ?agg = "stateAggregation (taxLoop config byState selected taxRows)"
  have "length ?agg = length (map fst ?agg)" by simp
  also have "\<dots> = card (set (map fst ?agg))"
    using aggregation_distinct [of config byState selected taxRows] by (simp only: distinct_card)
  also have "set (map fst ?agg) = taxRowState config ` {r \<in> set taxRows. taxRowCounts config selected r}"
    using aggregation_keys [of config byState selected taxRows] by simp
  finally show ?thesis .
qed

text \<open>
  Claim C4, as the code has it. The payload of a run that succeeds has one state for each
  selected state that has at least one tax row passing the tests of the aggregation loop
  (year, selected state, non-empty tax type). The selected states are
  min(topN, number of states with a valid population for the target year) in number, for a
  topN that is not negative, so the payload has at most that many states, and exactly that
  many when every selected state has such a tax row.
\<close>

theorem output_state_count:
  assumes "readCsv papa taxFile = Inr taxRows"
    and "readCsv papa populationFile = Inr populationRows"
    and "run papa config taxFile populationFile now = Inr payload"
    and "selected = topStates config (populationByState config populationRows)"
  shows "length (states payload)
         = length (filter (\<lambda>st. \<exists>r \<in> set taxRows. taxRowCounts config selected r
                                    \<and> taxRowState config r = st) selected)
       \<and> (0 \<le> topNStates config \<longrightarrow>
            length selected
            = min (nat (topNStates config))
                (card (popRowState config ` {r \<in> set populationRows. popRowSurvives config r})))
       \<and> (0 \<le> topNStates config \<longrightarrow>
            length (states payload)
            \<le> min (nat (topNStates config))
                (card (popRowState config ` {r \<in> set populationRows. popRowSurvives config r})))"
proof -
  let ?byState = "populationByState config populationRows"
  let ?P = "\<lambda>st. \<exists>r \<in> set taxRows. taxRowCounts config selected r \<and> taxRowState config r = st"
  have d: "distinct selected"
    unfolding assms(4) by (rule topStates_distinct) (rule populationByState_distinct)
  have "length (states payload) = length (stateAggregation (taxLoop config ?byState selected taxRows))"
    using run_Inr_states [OF assms(3) assms(1) assms(2)] by (simp add: finalStates_length assms(4))
  then have count: "length (states payload) = length (filter ?P selected)"
    by (simp add: aggregation_length counted_states [OF d])
  have sel: "length selected
      = min (nat (topNStates config))
          (card (popRowState config ` {r \<in> set populationRows. popRowSurvives config r}))"
    if "0 \<le> topNStates config"
    using that by (simp add: assms(4) topStates_length populationByState_length)
  have le: "length (filter ?P selected) \<le> length selected" by simp
  show ?thesis
  proof (intro conjI impI)
    show "length (states payload) = length (filter ?P selected)" by (rule count)
  next
    assume "0 \<le> topNStates config"
    then show "length selected
      = min (nat (topNStates config))
          (card (popRowState config ` {r \<in> set populationRows. popRowSurvives config r}))"
      by (rule sel)
  next
    assume "0 \<le> topNStates config"
    from sel [OF this] count le show "length (states payload)
      \<le> min (nat (topNStates config))
          (card (popRowState config ` {r \<in> set populationRows. popRowSurvives config r}))"
      by linarith
  qed
qed

theorem output_state_count_witness:
  "length (states \<lparr>metadata = \<lparr>metaYear = Fin 2023, metaCurrency = ''USD'',
                 metaScope = ''state+local'', metaTopN = 2, metaNotes = [''Nominal dollars.'',
                 ''Top states selected by population for the same year.''],
                 generatedAt = ''2026-01-01T00:00:00.000Z''\<rparr>,
          taxTypes = [(''property'', ''property''), (''sales'', ''sales'')],
          states = [\<lparr>outState = ''Ohio'', population = 300, totalRevenue = 13,
                     perCapitaTotal = 1 / 25,
                     breakdown = [(''property'', Amount (5 / 2)), (''sales'', Amount 10)]\<rparr>]\<rparr>)
   = length (filter (\<lambda>st. \<exists>r \<in> set sampleTaxRows.
                 taxRowCounts sampleIngestConfig [''Ohio'', ''Utah''] r
                 \<and> taxRowState sampleIngestConfig r = st) [''Ohio'', ''Utah''])
   \<and> length [''Ohio'', ''Utah'']
     = min (nat (topNStates sampleIngestConfig))
         (card (popRowState sampleIngestConfig `
                 {r \<in> set samplePopulationRows. popRowSurvives sampleIngestConfig r}))"
proof -
  have files: "readCsv sampleParser (Some ''tax'') = Inr sampleTaxRows"
    "readCsv sampleParser (Some ''pop'') = Inr samplePopulationRows"
    by (simp_all add: readCsv_def sampleParser_def tableParser_def)
  have sel: "[''Ohio'', ''Utah''] = topStates sampleIngestConfig
      (populationByState sampleIngestConfig samplePopulationRows)"
    by (simp add: sample_populationByState sample_topStates)
  have n: "0 \<le> topNStates sampleIngestConfig"
    by (simp add: sample_config_fields)
  from output_state_count [OF files sample_run sel] n show ?thesis
    by blast
qed

text \<open>
  In that run three states have a valid population and topN is 2, so two states are
  selected (Ohio and Utah); Utah has no tax row, and the payload has one state, not two.
\<close>

theorem output_state_count_counterexample:
  "run sampleParser sampleIngestConfig (Some ''tax'') (Some ''pop'') ''2026-01-01T00:00:00.000Z'' =
     Inr \<lparr>metadata = \<lparr>metaYear = Fin 2023, metaCurrency = ''USD'', metaScope = ''state+local'',
                 metaTopN = 2, metaNotes = [''Nominal dollars.'',
                 ''Top states selected by population for the same year.''],
                 generatedAt = ''2026-01-01T00:00:00.000Z''\<rparr>,
          taxTypes = [(''property'', ''property''), (''sales'', ''sales'')],
          states = [\<lparr>outState = ''Ohio'', population = 300, totalRevenue = 13,
                     perCapitaTotal = 1 / 25,
                     breakdown = [(''property'', Amount (5 / 2)), (''sales'', Amount 10)]\<rparr>]\<rparr>
   \<and> topNStates sampleIngestConfig = 2
   \<and> populationByState sampleIngestConfig samplePopulationRows
     = [(''Texas'', 100), (''Ohio'', 300), (''Utah'', 200)]
   \<and> length [\<lparr>outState = ''Ohio'', population = 300, totalRevenue = 13,
                     perCapitaTotal = 1 / 25,
                     breakdown = [(''property'', Amount (5 / 2)), (''sales'', Amount 10)]\<rparr>]
     \<noteq> min (nat 2) (length [(''Texas'', 100 :: rat), (''Ohio'', 300), (''Utah'', 200)])"
  by (simp add: sample_run sample_populationByState sample_config_fields)

end
